theory Spec2Isabelle
  imports Complex_Main "HOL-Library.Product_Lexorder"
begin

section \<open>Values shared by all models\<close>

text \<open>
  The module is an extension of a warehouse system whose record framework stores rows,
  calls the \<open>write\<close> method of a model for every field store, recomputes stored computed
  fields when a declared dependency is written, and runs the constraint methods of a
  model when one of their fields is written. Only these parts of the framework are
  modelled, as the functions \<open>write_detail\<close>, \<open>write_picking\<close> and the recomputation
  functions below. A timestamp is a number of seconds, a date a number of days.

  An f-string becomes the list of its pieces: literal text, and the values it
  interpolates. Letters outside ASCII are the bytes of their UTF-8 encoding.
\<close>

datatype frag = Txt string | Num rat | Day int | Time int

type_synonym message = "frag list"

datatype error =
    UserError message | ValidationError message | ValueError message | MissingError message
  | ZeroDivisionError

definition a_acute :: string where "a_acute = [CHR 0xC3, CHR 0xA1]"
definition e_acute :: string where "e_acute = [CHR 0xC3, CHR 0xA9]"
definition i_acute :: string where "i_acute = [CHR 0xC3, CHR 0xAD]"
definition o_acute :: string where "o_acute = [CHR 0xC3, CHR 0xB3]"
definition u_acute :: string where "u_acute = [CHR 0xC3, CHR 0xBA]"
definition right_arrow :: string where "right_arrow = [CHR 0xE2, CHR 0x86, CHR 0x92]"

record clock =
  now :: int
  today :: int

subsection \<open>Floats\<close>

text \<open>
  Quantities, prices and costs are floats in the source: binary64 numbers. A float is
  represented by the rational number it denotes, a comparison of floats is the comparison
  of these rationals, and the result of an arithmetic operation is its exact result
  rounded to the nearest binary64 number, ties to the even significand.
  \<open>round_float\<close> is this rounding: the magnitude is scaled by powers of two until it lies
  between \<open>2^52\<close> and \<open>2^53\<close>, rounded to an integer, and scaled back. The exponent is
  taken as unbounded, which is exact for the sums and differences of binary64 numbers
  short of overflow. Python's \<open>sum\<close> is the sum from the left, starting at zero (from
  version 3.12 on it also compensates the rounding errors of more than two terms, which is
  not modelled). The framework also rounds a float it stores in a field to the decimal
  precision configured for that field; the precision is configuration of the
  installation, and this rounding at the store is not modelled.
\<close>

definition round_half_even :: "rat \<Rightarrow> int" where
  "round_half_even x =
     (let f = \<lfloor>x\<rfloor>; d = x - of_int f
      in if d < 1 / 2 then f else if 1 / 2 < d then f + 1 else if even f then f else f + 1)"

fun normalise :: "nat \<Rightarrow> rat \<Rightarrow> int \<Rightarrow> rat \<times> int" where
  "normalise 0 m e = (m, e)"
| "normalise (Suc n) m e =
     (if m < 2 ^ 52 then normalise n (m * 2) (e - 1)
      else if 2 ^ 53 \<le> m then normalise n (m / 2) (e + 1)
      else (m, e))"

definition round_float :: "rat \<Rightarrow> rat" where
  "round_float x =
     (if x = 0 then 0
      else (case normalise 2200 \<bar>x\<bar> 0 of
              (m, e) \<Rightarrow> sgn x * of_int (round_half_even m) * (2 powi e)))"

definition float_sum :: "rat list \<Rightarrow> rat" where
  "float_sum xs = foldl (\<lambda>a b. round_float (a + b)) 0 xs"

section \<open>The tracking ledger: \<open>loan.tracking.detail\<close>\<close>

datatype status =
  Active | Sold | Returned_good | Returned_damaged | Returned_defective | Pending_resolution

datatype tracking = Serial | Lot | No_tracking

record product =
  product_name :: string
  tracking :: tracking
  standard_price :: rat
  list_price :: rat

text \<open>
  A row of the ledger. \<open>lot_id\<close>, \<open>sale_order_line_id\<close> and \<open>return_picking_id\<close> are
  optional references (\<open>None\<close> is the framework's \<open>False\<close>); \<open>days_in_loan\<close> and
  \<open>is_overdue\<close> are stored computed fields. The stored display name is a presentation
  string and is left out.
\<close>

record loan_tracking_detail =
  detail_id :: nat
  picking_id :: nat
  product_id :: nat
  lot_id :: "nat option"
  quantity :: rat
  status :: status
  loan_date :: int
  resolution_date :: "int option"
  expected_return_date :: "int option"
  partner_id :: "nat option"
  original_cost :: rat
  sale_price :: rat
  sale_order_line_id :: "nat option"
  return_picking_id :: "nat option"
  days_in_loan :: int
  is_overdue :: bool
  detail_notes :: message
  return_condition_notes :: message

text \<open>The dictionary given to \<open>write\<close>: a field is \<open>None\<close> when the key is absent.\<close>

record detail_vals =
  v_quantity :: "rat option"
  v_product_id :: "nat option"
  v_lot_id :: "nat option option"
  v_status :: "status option"
  v_resolution_date :: "int option option"
  v_sale_order_line_id :: "nat option option"
  v_sale_price :: "rat option"
  v_return_picking_id :: "nat option option"
  v_notes :: "message option"
  v_return_condition_notes :: "message option"

definition no_vals :: detail_vals where
  "no_vals = \<lparr> v_quantity = None, v_product_id = None, v_lot_id = None, v_status = None,
     v_resolution_date = None, v_sale_order_line_id = None, v_sale_price = None,
     v_return_picking_id = None, v_notes = None, v_return_condition_notes = None \<rparr>"

definition or_else :: "'a option \<Rightarrow> 'a \<Rightarrow> 'a" where
  "or_else v d = (case v of None \<Rightarrow> d | Some x \<Rightarrow> x)"

definition apply_vals :: "detail_vals \<Rightarrow> loan_tracking_detail \<Rightarrow> loan_tracking_detail" where
  "apply_vals vals r = r
     \<lparr> quantity := or_else (v_quantity vals) (quantity r),
       product_id := or_else (v_product_id vals) (product_id r),
       lot_id := or_else (v_lot_id vals) (lot_id r),
       status := or_else (v_status vals) (status r),
       resolution_date := or_else (v_resolution_date vals) (resolution_date r),
       sale_order_line_id := or_else (v_sale_order_line_id vals) (sale_order_line_id r),
       sale_price := or_else (v_sale_price vals) (sale_price r),
       return_picking_id := or_else (v_return_picking_id vals) (return_picking_id r),
       detail_notes := or_else (v_notes vals) (detail_notes r),
       return_condition_notes := or_else (v_return_condition_notes vals) (return_condition_notes r) \<rparr>"

subsection \<open>Stored computed fields\<close>

text \<open>
  \<open>_compute_days_in_loan\<close>: the days of the difference of two timestamps are its floor
  division by the seconds of a day. \<open>loan_date\<close> is a required field, so the branch of
  the source for a missing loan date is not reachable on a stored row.
\<close>

definition compute_days_in_loan :: "clock \<Rightarrow> loan_tracking_detail \<Rightarrow> loan_tracking_detail" where
  "compute_days_in_loan clk r =
     (let end_date = (if status r = Active then now clk
                      else or_else (resolution_date r) (loan_date r))
      in r \<lparr> days_in_loan := (end_date - loan_date r) div 86400 \<rparr>)"

definition compute_overdue_status :: "clock \<Rightarrow> loan_tracking_detail \<Rightarrow> loan_tracking_detail" where
  "compute_overdue_status clk r =
     r \<lparr> is_overdue :=
          (status r = Active \<and>
           (case expected_return_date r of None \<Rightarrow> False | Some d \<Rightarrow> d < today clk)) \<rparr>"

subsection \<open>Constraints\<close>

definition check_tracking_consistency ::
  "(nat \<Rightarrow> product) \<Rightarrow> loan_tracking_detail \<Rightarrow> error + unit" where
  "check_tracking_consistency products r =
     (let p = products (product_id r) in
      if tracking p = Serial then
        (if lot_id r = None then
           Inl (ValidationError [Txt ''El producto '', Txt (product_name p),
             Txt ('' requiere n'' @ u_acute @ ''mero de serie.'')])
         else if quantity r \<noteq> 1 then
           Inl (ValidationError
             [Txt (''Los productos con n'' @ u_acute @ ''mero de serie deben tener cantidad = 1. ''),
              Txt ''Producto: '', Txt (product_name p)])
         else Inr ())
      else if tracking p = Lot then
        (if lot_id r = None then
           Inl (ValidationError [Txt ''El producto '', Txt (product_name p),
             Txt ('' requiere n'' @ u_acute @ ''mero de lote.'')])
         else Inr ())
      else
        (if lot_id r = None then Inr ()
         else Inl (ValidationError [Txt ''El producto '', Txt (product_name p),
             Txt '' no usa rastreo por serie/lote.''])))"

definition is_returned :: "status \<Rightarrow> bool" where
  "is_returned s = (s = Returned_good \<or> s = Returned_damaged \<or> s = Returned_defective)"

text \<open>
  \<open>_check_resolution_consistency\<close> rejects a sold row without a sale line and a returned
  row without a return transfer, and stamps the resolution date of a row that is not
  active and has none.
\<close>

definition check_resolution_consistency ::
  "clock \<Rightarrow> loan_tracking_detail \<Rightarrow> error + loan_tracking_detail" where
  "check_resolution_consistency clk r =
     (if status r = Sold \<and> sale_order_line_id r = None then
        Inl (ValidationError
          [Txt (''Los pr'' @ e_acute @ ''stamos vendidos deben tener una l'' @ i_acute
                @ ''nea de orden de venta asociada.'')])
      else if is_returned (status r) \<and> return_picking_id r = None then
        Inl (ValidationError
          [Txt (''Los pr'' @ e_acute @ ''stamos devueltos deben tener una transferencia de devoluci''
                @ o_acute @ ''n asociada.'')])
      else if status r = Active then Inr r
      else if resolution_date r = None then Inr (r \<lparr> resolution_date := Some (now clk) \<rparr>)
      else Inr r)"

subsection \<open>Writing and creating a row\<close>

text \<open>
  \<open>write\<close> of the framework on one row: the values are stored, the constraint methods
  whose declared fields are among the written keys run (the tracking check is declared on
  quantity, product and lot; the resolution check on status, resolution date, sale line
  and return transfer), and the stored computed fields whose dependencies were written
  (by the caller, or by the resolution check when it stamps the date) are recomputed. An error of a constraint aborts the write: no row is returned.
\<close>

definition touches_tracking :: "detail_vals \<Rightarrow> bool" where
  "touches_tracking vals =
     (v_quantity vals \<noteq> None \<or> v_product_id vals \<noteq> None \<or> v_lot_id vals \<noteq> None)"

definition touches_resolution :: "detail_vals \<Rightarrow> bool" where
  "touches_resolution vals =
     (v_status vals \<noteq> None \<or> v_resolution_date vals \<noteq> None \<or>
      v_sale_order_line_id vals \<noteq> None \<or> v_return_picking_id vals \<noteq> None)"

definition recompute_stored ::
  "clock \<Rightarrow> detail_vals \<Rightarrow> bool \<Rightarrow> loan_tracking_detail \<Rightarrow> loan_tracking_detail" where
  "recompute_stored clk vals stamped r =
     (let r1 = (if v_status vals \<noteq> None \<or> v_resolution_date vals \<noteq> None \<or> stamped
                then compute_days_in_loan clk r else r)
      in if v_status vals \<noteq> None then compute_overdue_status clk r1 else r1)"

definition write_detail ::
  "(nat \<Rightarrow> product) \<Rightarrow> clock \<Rightarrow> detail_vals \<Rightarrow> loan_tracking_detail
     \<Rightarrow> error + loan_tracking_detail" where
  "write_detail products clk vals r =
     (let r1 = apply_vals vals r in
      case (if touches_resolution vals then check_resolution_consistency clk r1 else Inr r1) of
        Inl e \<Rightarrow> Inl e
      | Inr r2 \<Rightarrow>
          (case (if touches_tracking vals then check_tracking_consistency products r2
                 else Inr ()) of
             Inl e \<Rightarrow> Inl e
           | Inr _ \<Rightarrow>
               Inr (recompute_stored clk vals (resolution_date r2 \<noteq> resolution_date r1) r2)))"

text \<open>\<open>create\<close> runs every constraint and computes every stored field.\<close>

definition create_detail ::
  "(nat \<Rightarrow> product) \<Rightarrow> clock \<Rightarrow> loan_tracking_detail \<Rightarrow> error + loan_tracking_detail" where
  "create_detail products clk r =
     (case check_resolution_consistency clk r of
        Inl e \<Rightarrow> Inl e
      | Inr r2 \<Rightarrow>
          (case check_tracking_consistency products r2 of
             Inl e \<Rightarrow> Inl e
           | Inr _ \<Rightarrow> Inr (compute_overdue_status clk (compute_days_in_loan clk r2))))"

subsection \<open>\<open>action_mark_as_sold\<close> and \<open>action_mark_as_returned\<close>\<close>

text \<open>
  Both methods apply to one row (\<open>ensure_one\<close>); the model takes the row itself.
  The sale line handed to \<open>action_mark_as_sold\<close> is a record set of at most one line;
  \<open>None\<close> is the empty set, whose id is false and whose price reads as zero. Python's
  \<open>a or b\<close> on a price takes \<open>b\<close> when \<open>a\<close> is missing or zero.
\<close>

record sale_order_line =
  sol_id :: nat
  sol_product_id :: nat
  sol_name :: string
  price_unit :: rat
  product_uom_qty :: rat

definition price_or :: "rat option \<Rightarrow> rat \<Rightarrow> rat" where
  "price_or a b = (case a of None \<Rightarrow> b | Some x \<Rightarrow> if x = 0 then b else x)"

definition action_mark_as_sold ::
  "(nat \<Rightarrow> product) \<Rightarrow> clock \<Rightarrow> loan_tracking_detail \<Rightarrow> sale_order_line option
     \<Rightarrow> rat option \<Rightarrow> error + loan_tracking_detail" where
  "action_mark_as_sold products clk r line price =
     (if status r \<noteq> Active then
        Inl (UserError
          [Txt (''Solo los pr'' @ e_acute @ ''stamos activos pueden marcarse como vendidos.'')])
      else
        write_detail products clk
          (no_vals \<lparr> v_status := Some Sold,
                     v_sale_order_line_id := Some (map_option sol_id line),
                     v_sale_price :=
                       Some (price_or price (case line of None \<Rightarrow> 0 | Some l \<Rightarrow> price_unit l)),
                     v_resolution_date := Some (Some (now clk)) \<rparr>) r)"

definition status_mapping :: "(string \<times> status) list" where
  "status_mapping =
     [(''good'', Returned_good), (''damaged'', Returned_damaged),
      (''defective'', Returned_defective)]"

text \<open>
  The return transfer is given by its id (\<open>None\<close> for an empty record set); \<open>notes\<close> is
  \<open>None\<close> when the caller passes none, and then the empty text is stored.
\<close>

definition action_mark_as_returned ::
  "(nat \<Rightarrow> product) \<Rightarrow> clock \<Rightarrow> loan_tracking_detail \<Rightarrow> nat option \<Rightarrow> string
     \<Rightarrow> message option \<Rightarrow> error + loan_tracking_detail" where
  "action_mark_as_returned products clk r return_picking condition note =
     (if status r \<noteq> Active \<and> status r \<noteq> Pending_resolution then
        Inl (UserError
          [Txt (''Solo los pr'' @ e_acute @ ''stamos activos pueden marcarse como devueltos.'')])
      else
        write_detail products clk
          (no_vals \<lparr> v_status := Some (or_else (map_of status_mapping condition) Returned_good),
                     v_return_picking_id := Some return_picking,
                     v_resolution_date := Some (Some (now clk)),
                     v_return_condition_notes := Some (or_else note []) \<rparr>) r)"

section \<open>The loan transfer: the extension of \<open>stock.picking\<close>\<close>

datatype loan_state = Loan_active | In_trial | Resolving | Partially_resolved | Completed

datatype picking_state = Draft | Waiting | Confirmed | Assigned | Done | Cancel

record move_line =
  ml_lot_id :: "nat option"
  qty_done :: rat

record stock_move =
  move_product_id :: nat
  move_line_ids :: "move_line list"

text \<open>
  A transfer. \<open>type_warehouse_is_loans\<close> says whether the warehouse of the transfer's
  operation type has the type \<open>loans\<close>. \<open>overdue_days\<close> and \<open>pk_is_overdue\<close> are the stored
  computed fields of \<open>_compute_overdue_days\<close>; the two stored presentation strings are
  left out.
\<close>

record picking =
  pk_id :: nat
  pk_name :: string
  is_loan :: bool
  type_warehouse_is_loans :: bool
  loan_return_origin_id :: "nat option"
  loaned_to_partner_id :: "nat option"
  loan_state :: "loan_state option"
  loan_expected_return_date :: "int option"
  loan_notes :: message
  conversion_sale_order_id :: "nat option"
  overdue_days :: int
  pk_is_overdue :: bool
  state :: picking_state
  date_done :: "int option"
  location_dest_id :: nat
  user_id :: "nat option"
  move_ids_without_package :: "stock_move list"

definition loan_state_key :: "loan_state \<Rightarrow> string" where
  "loan_state_key s =
     (case s of Loan_active \<Rightarrow> ''active'' | In_trial \<Rightarrow> ''in_trial'' | Resolving \<Rightarrow> ''resolving''
      | Partially_resolved \<Rightarrow> ''partially_resolved'' | Completed \<Rightarrow> ''completed'')"

definition valid_transitions :: "loan_state \<Rightarrow> loan_state list" where
  "valid_transitions s =
     (case s of
        Loan_active \<Rightarrow> [In_trial, Resolving]
      | In_trial \<Rightarrow> [Resolving, Completed]
      | Resolving \<Rightarrow> [Partially_resolved, Completed]
      | Partially_resolved \<Rightarrow> [Resolving, Completed]
      | Completed \<Rightarrow> [])"

definition transition_message :: "loan_state \<Rightarrow> loan_state \<Rightarrow> message" where
  "transition_message s t =
     [Txt (''Transici'' @ o_acute @ ''n de estado no v'' @ a_acute @ ''lida: ''),
      Txt (loan_state_key s), Txt ('' '' @ right_arrow @ '' ''), Txt (loan_state_key t)]"

definition validate_state_transition :: "picking \<Rightarrow> loan_state \<Rightarrow> error + unit" where
  "validate_state_transition p new_state =
     (case loan_state p of
        None \<Rightarrow> Inr ()
      | Some s \<Rightarrow>
          if new_state \<in> set (valid_transitions s) then Inr ()
          else Inl (ValidationError (transition_message s new_state)))"

definition active_family :: "loan_state option \<Rightarrow> bool" where
  "active_family s = (s = Some Loan_active \<or> s = Some In_trial \<or> s = Some Partially_resolved)"

definition compute_overdue_days :: "clock \<Rightarrow> picking \<Rightarrow> picking" where
  "compute_overdue_days clk p =
     (case loan_expected_return_date p of
        None \<Rightarrow> p \<lparr> overdue_days := 0, pk_is_overdue := False \<rparr>
      | Some d \<Rightarrow>
          if is_loan p \<and> active_family (loan_state p) then
            p \<lparr> overdue_days := max 0 (today clk - d), pk_is_overdue := (max 0 (today clk - d) > 0) \<rparr>
          else p \<lparr> overdue_days := 0, pk_is_overdue := False \<rparr>)"

text \<open>
  The values of a \<open>write\<close> on a transfer, with the keys this module writes. The override
  of \<open>write\<close> first validates a new loan state on a loan transfer, drops the destination
  when the call comes from the loans menu, and then stores. Its last step recomputes
  quantity fields of products inside a handler that swallows every exception and touches
  no field of the transfer; it is left out. The stored overdue fields depend on the loan
  state and are recomputed when it is written.
\<close>

record picking_vals =
  pv_loan_state :: "loan_state option"
  pv_loan_notes :: "message option"
  pv_location_dest_id :: "nat option"
  pv_conversion_sale_order_id :: "nat option"

definition no_picking_vals :: picking_vals where
  "no_picking_vals = \<lparr> pv_loan_state = None, pv_loan_notes = None, pv_location_dest_id = None,
     pv_conversion_sale_order_id = None \<rparr>"

definition store_picking_vals :: "clock \<Rightarrow> picking_vals \<Rightarrow> picking \<Rightarrow> picking" where
  "store_picking_vals clk vals p =
     (let p1 = p \<lparr> loan_state := (case pv_loan_state vals of None \<Rightarrow> loan_state p | Some s \<Rightarrow> Some s),
                   loan_notes := or_else (pv_loan_notes vals) (loan_notes p),
                   location_dest_id := or_else (pv_location_dest_id vals) (location_dest_id p),
                   conversion_sale_order_id :=
                     (case pv_conversion_sale_order_id vals of
                        None \<Rightarrow> conversion_sale_order_id p | Some i \<Rightarrow> Some i) \<rparr>
      in if pv_loan_state vals = None then p1 else compute_overdue_days clk p1)"

definition write_picking :: "bool \<Rightarrow> clock \<Rightarrow> picking_vals \<Rightarrow> picking \<Rightarrow> error + picking" where
  "write_picking from_loans_menu clk vals p =
     (case (case pv_loan_state vals of
              None \<Rightarrow> Inr ()
            | Some new_state \<Rightarrow> if is_loan p then validate_state_transition p new_state else Inr ()) of
        Inl e \<Rightarrow> Inl e
      | Inr _ \<Rightarrow>
          (let vals1 = (if pv_location_dest_id vals \<noteq> None \<and> is_loan p \<and> from_loans_menu
                        then vals \<lparr> pv_location_dest_id := None \<rparr> else vals)
           in Inr (store_picking_vals clk vals1 p)))"

section \<open>The database\<close>

text \<open>
  The rows the reconciliation and the resolution workflow read and write. \<open>details\<close> and
  \<open>pickings\<close> hold the rows in the order of their ids; \<open>next_id\<close> is the id the next
  created row gets; \<open>main_warehouse\<close> is the stock location of the first warehouse whose
  type is not \<open>loans\<close>, if there is one.
\<close>

record db =
  products :: "nat \<Rightarrow> product"
  lot_names :: "nat \<Rightarrow> string"
  details :: "loan_tracking_detail list"
  pickings :: "picking list"
  next_id :: nat
  main_warehouse :: "nat option"

text \<open>A search lists rows in the model's order: latest loan date first, then highest id.\<close>

definition search_details :: "db \<Rightarrow> (loan_tracking_detail \<Rightarrow> bool) \<Rightarrow> loan_tracking_detail list" where
  "search_details d P =
     sort_key (\<lambda>r. (- loan_date r, - int (detail_id r))) (filter P (details d))"

definition find_detail :: "db \<Rightarrow> nat \<Rightarrow> loan_tracking_detail option" where
  "find_detail d i = find (\<lambda>r. detail_id r = i) (details d)"

definition find_picking :: "db \<Rightarrow> nat \<Rightarrow> picking option" where
  "find_picking d i = find (\<lambda>p. pk_id p = i) (pickings d)"

definition store_detail :: "db \<Rightarrow> loan_tracking_detail \<Rightarrow> db" where
  "store_detail d r =
     d \<lparr> details := map (\<lambda>x. if detail_id x = detail_id r then r else x) (details d) \<rparr>"

definition store_picking :: "db \<Rightarrow> picking \<Rightarrow> db" where
  "store_picking d p =
     d \<lparr> pickings := map (\<lambda>x. if pk_id x = pk_id p then p else x) (pickings d) \<rparr>"

text \<open>
  Assigning a field of a stored row is, in the framework, a call of \<open>write\<close> with that one
  value: the assignment of a loan state runs the override of \<open>write\<close> and its check.
\<close>

definition assign_loan_state :: "db \<Rightarrow> clock \<Rightarrow> picking \<Rightarrow> loan_state \<Rightarrow> error + db" where
  "assign_loan_state d clk p s =
     (case write_picking False clk (no_picking_vals \<lparr> pv_loan_state := Some s \<rparr>) p of
        Inl e \<Rightarrow> Inl e
      | Inr p' \<Rightarrow> Inr (store_picking d p'))"

section \<open>Return reconciliation\<close>

text \<open>
  \<open>copy\<close> of a row with overriding values: the stored fields are duplicated under a fresh
  id, the overrides applied, and the row created (all constraints run).
\<close>

definition copy_detail :: "db \<Rightarrow> clock \<Rightarrow> loan_tracking_detail \<Rightarrow> detail_vals \<Rightarrow> error + db" where
  "copy_detail d clk r vals =
     (case create_detail (products d) clk (apply_vals vals (r \<lparr> detail_id := next_id d \<rparr>)) of
        Inl e \<Rightarrow> Inl e
      | Inr r' \<Rightarrow> Inr (d \<lparr> details := details d @ [r'], next_id := Suc (next_id d) \<rparr>))"

definition auto_return_note :: "clock \<Rightarrow> message" where
  "auto_return_note clk = [Txt (''Devuelto autom'' @ a_acute @ ''ticamente el ''), Time (now clk)]"

definition partial_return_note :: "clock \<Rightarrow> message" where
  "partial_return_note clk =
     [Txt (''Devoluci'' @ o_acute @ ''n parcial autom'' @ a_acute @ ''tica el ''), Time (now clk)]"

text \<open>
  The loop over the active rows of a product that has no serial numbers. \<open>rp\<close> is the id
  of the return transfer. The rows are the ones the search found; each is written in its
  own iteration only, so its quantity is still the one found. The new remainder and the
  quantity a split row keeps are float differences.
\<close>

fun consume_rows ::
  "db \<Rightarrow> clock \<Rightarrow> nat \<Rightarrow> loan_tracking_detail list \<Rightarrow> rat \<Rightarrow> error + db" where
  "consume_rows d clk rp [] remaining_qty = Inr d"
| "consume_rows d clk rp (r # rs) remaining_qty =
     (if remaining_qty \<le> 0 then Inr d
      else if quantity r \<le> remaining_qty then
        (case action_mark_as_returned (products d) clk r (Some rp) ''good''
                (Some (auto_return_note clk)) of
           Inl e \<Rightarrow> Inl e
         | Inr r' \<Rightarrow>
             consume_rows (store_detail d r') clk rp rs (round_float (remaining_qty - quantity r)))
      else
        (case copy_detail d clk r
                (no_vals \<lparr> v_quantity := Some remaining_qty, v_status := Some Returned_good,
                           v_return_picking_id := Some (Some rp),
                           v_resolution_date := Some (Some (now clk)),
                           v_return_condition_notes := Some (partial_return_note clk) \<rparr>) of
           Inl e \<Rightarrow> Inl e
         | Inr d1 \<Rightarrow>
             (case write_detail (products d1) clk
                     (no_vals \<lparr> v_quantity := Some (round_float (quantity r - remaining_qty)) \<rparr>)
                     r of
                Inl e \<Rightarrow> Inl e
              | Inr r' \<Rightarrow> consume_rows (store_detail d1 r') clk rp rs 0)))"

text \<open>Marking every row of a list as returned in good condition (serial numbers).\<close>

fun mark_rows_returned ::
  "db \<Rightarrow> clock \<Rightarrow> nat \<Rightarrow> loan_tracking_detail list \<Rightarrow> error + db" where
  "mark_rows_returned d clk rp [] = Inr d"
| "mark_rows_returned d clk rp (r # rs) =
     (case action_mark_as_returned (products d) clk r (Some rp) ''good''
             (Some (auto_return_note clk)) of
        Inl e \<Rightarrow> Inl e
      | Inr r' \<Rightarrow> mark_rows_returned (store_detail d r') clk rp rs)"

fun return_serials ::
  "db \<Rightarrow> clock \<Rightarrow> nat \<Rightarrow> nat \<Rightarrow> nat \<Rightarrow> move_line list \<Rightarrow> error + db" where
  "return_serials d clk rp original pid [] = Inr d"
| "return_serials d clk rp original pid (ml # mls) =
     (case ml_lot_id ml of
        None \<Rightarrow> return_serials d clk rp original pid mls
      | Some lot \<Rightarrow>
          if qty_done ml > 0 then
            (case mark_rows_returned d clk rp
                    (search_details d (\<lambda>r. picking_id r = original \<and> product_id r = pid \<and>
                        lot_id r = Some lot \<and> status r = Active)) of
               Inl e \<Rightarrow> Inl e
             | Inr d' \<Rightarrow> return_serials d' clk rp original pid mls)
          else return_serials d clk rp original pid mls)"

fun return_moves :: "db \<Rightarrow> clock \<Rightarrow> nat \<Rightarrow> nat \<Rightarrow> stock_move list \<Rightarrow> error + db" where
  "return_moves d clk rp original [] = Inr d"
| "return_moves d clk rp original (m # ms) =
     (let qty_returned = float_sum (map qty_done (move_line_ids m)) in
      if qty_returned \<le> 0 then return_moves d clk rp original ms
      else
        (case (if tracking (products d (move_product_id m)) = Serial then
                 return_serials d clk rp original (move_product_id m) (move_line_ids m)
               else
                 consume_rows d clk rp
                   (search_details d (\<lambda>r. picking_id r = original \<and>
                       product_id r = move_product_id m \<and> status r = Active))
                   qty_returned) of
           Inl e \<Rightarrow> Inl e
         | Inr d' \<Rightarrow> return_moves d' clk rp original ms))"

text \<open>
  \<open>_update_original_loan_state\<close> of the transfer. A reference to a transfer that is not
  in the database reads as an empty record set, on which the assignment does nothing.
\<close>

definition update_original_loan_state :: "db \<Rightarrow> clock \<Rightarrow> nat \<Rightarrow> error + db" where
  "update_original_loan_state d clk original =
     (case find_picking d original of
        None \<Rightarrow> Inr d
      | Some original_loan \<Rightarrow>
          (let active_tracking = search_details d (\<lambda>r. picking_id r = original \<and> status r = Active) in
           if active_tracking = [] then assign_loan_state d clk original_loan Completed
           else
             (let total_tracking = search_details d (\<lambda>r. picking_id r = original) in
              if length active_tracking < length total_tracking
              then assign_loan_state d clk original_loan Partially_resolved
              else Inr d)))"

definition update_loan_tracking_on_return :: "db \<Rightarrow> clock \<Rightarrow> picking \<Rightarrow> error + db" where
  "update_loan_tracking_on_return d clk self =
     (case loan_return_origin_id self of
        None \<Rightarrow> Inr d
      | Some original \<Rightarrow>
          (case return_moves d clk (pk_id self) original (move_ids_without_package self) of
             Inl e \<Rightarrow> Inl e
           | Inr d' \<Rightarrow> update_original_loan_state d' clk original))"

text \<open>
  \<open>button_validate\<close>, after the confirmation of the inventory engine has returned: \<open>self\<close>
  is the transfer as that confirmation left it.
\<close>

definition button_validate :: "db \<Rightarrow> clock \<Rightarrow> picking \<Rightarrow> error + db" where
  "button_validate d clk self =
     (if state self = Done \<and> loan_return_origin_id self \<noteq> None
      then update_loan_tracking_on_return d clk self else Inr d)"

section \<open>The resolution workflow: \<open>loan.resolution.wizard\<close>\<close>

datatype resolution_type = Buy | Return | Keep_loan

record resolution_line =
  tracking_detail_id :: nat
  line_product_id :: nat
  line_lot_id :: "nat option"
  loaned_qty :: rat
  qty_to_resolve :: rat
  resolution_type :: "resolution_type option"
  unit_price :: rat
  return_condition :: string

record wizard =
  wiz_picking_id :: nat
  wiz_partner_id :: "nat option"
  wiz_resolution_date :: int
  wiz_notes :: message
  resolution_line_ids :: "resolution_line list"

subsection \<open>\<open>_compute_totals\<close>\<close>

definition lines_of_type :: "resolution_type \<Rightarrow> wizard \<Rightarrow> resolution_line list" where
  "lines_of_type t w = filter (\<lambda>l. resolution_type l = Some t) (resolution_line_ids w)"

definition has_sales :: "wizard \<Rightarrow> bool" where
  "has_sales w = (lines_of_type Buy w \<noteq> [])"

definition has_returns :: "wizard \<Rightarrow> bool" where
  "has_returns w = (lines_of_type Return w \<noteq> [])"

definition has_continued_loans :: "wizard \<Rightarrow> bool" where
  "has_continued_loans w = (lines_of_type Keep_loan w \<noteq> [])"

definition total_sale_amount :: "wizard \<Rightarrow> rat" where
  "total_sale_amount w =
     float_sum (map (\<lambda>l. round_float (qty_to_resolve l * unit_price l)) (lines_of_type Buy w))"

definition item_count :: "db \<Rightarrow> resolution_line \<Rightarrow> rat" where
  "item_count d l =
     (if tracking (products d (line_product_id l)) = Serial then 1 else qty_to_resolve l)"

definition total_return_items :: "db \<Rightarrow> wizard \<Rightarrow> rat" where
  "total_return_items d w = float_sum (map (item_count d) (lines_of_type Return w))"

definition total_keep_loan_items :: "db \<Rightarrow> wizard \<Rightarrow> rat" where
  "total_keep_loan_items d w = float_sum (map (item_count d) (lines_of_type Keep_loan w))"

subsection \<open>\<open>_validate_resolution\<close>\<close>

fun check_quantities :: "db \<Rightarrow> resolution_line list \<Rightarrow> error + unit" where
  "check_quantities d [] = Inr ()"
| "check_quantities d (l # ls) =
     (if qty_to_resolve l \<le> 0 then
        Inl (UserError [Txt ''La cantidad a resolver debe ser mayor a 0 para '',
               Txt (product_name (products d (line_product_id l)))])
      else if qty_to_resolve l > loaned_qty l then
        Inl (UserError
          [Txt (''No se puede resolver m'' @ a_acute @ ''s cantidad de la prestada para ''),
           Txt (product_name (products d (line_product_id l))), Txt ''. '',
           Txt ''Prestado: '', Num (loaned_qty l), Txt '', Intentando resolver: '',
           Num (qty_to_resolve l)])
      else check_quantities d ls)"

fun check_prices :: "db \<Rightarrow> resolution_line list \<Rightarrow> error + unit" where
  "check_prices d [] = Inr ()"
| "check_prices d (l # ls) =
     (if unit_price l \<le> 0 then
        Inl (UserError [Txt ''El precio de venta debe ser mayor a 0 para '',
               Txt (product_name (products d (line_product_id l)))])
      else check_prices d ls)"

definition validate_resolution :: "db \<Rightarrow> wizard \<Rightarrow> error + unit" where
  "validate_resolution d w =
     (if resolution_line_ids w = [] then Inl (UserError [Txt ''No hay productos para resolver.''])
      else if filter (\<lambda>l. resolution_type l = None) (resolution_line_ids w) \<noteq> [] then
        Inl (UserError
          [Txt (''Todas las l'' @ i_acute @ ''neas deben tener un tipo de resoluci'' @ o_acute
                @ ''n definido.'')])
      else
        (case check_quantities d (resolution_line_ids w) of
           Inl e \<Rightarrow> Inl e
         | Inr _ \<Rightarrow> check_prices d (lines_of_type Buy w)))"

subsection \<open>Sales\<close>

text \<open>
  The dictionary of groups of \<open>_create_sale_order\<close>, in insertion order. A key is the
  product and the price, and for a product with serial numbers also the lot (0 when the
  line has none); the third component is \<open>None\<close> for the two-part key.
\<close>

type_synonym group_key = "nat \<times> rat \<times> nat option"

record group_data =
  g_product_id :: nat
  g_quantity :: rat
  g_price :: rat
  g_lot_name :: "string option"

fun add_to_group ::
  "group_key \<Rightarrow> group_data \<Rightarrow> rat \<Rightarrow> (group_key \<times> group_data) list
     \<Rightarrow> (group_key \<times> group_data) list" where
  "add_to_group k fresh q [] = [(k, fresh \<lparr> g_quantity := round_float (g_quantity fresh + q) \<rparr>)]"
| "add_to_group k fresh q ((k', g) # gs) =
     (if k' = k then (k', g \<lparr> g_quantity := round_float (g_quantity g + q) \<rparr>) # gs
      else (k', g) # add_to_group k fresh q gs)"

definition line_key :: "db \<Rightarrow> resolution_line \<Rightarrow> group_key" where
  "line_key d l =
     (if tracking (products d (line_product_id l)) = Serial
      then (line_product_id l, unit_price l, Some (or_else (line_lot_id l) 0))
      else (line_product_id l, unit_price l, None))"

definition group_lines :: "db \<Rightarrow> resolution_line list \<Rightarrow> (group_key \<times> group_data) list" where
  "group_lines d sale_lines =
     foldl (\<lambda>gs l. add_to_group (line_key d l)
                     \<lparr> g_product_id = line_product_id l, g_quantity = 0, g_price = unit_price l,
                       g_lot_name = map_option (lot_names d) (line_lot_id l) \<rparr>
                     (qty_to_resolve l) gs)
       [] sale_lines"

definition order_line_name :: "group_data \<Rightarrow> string" where
  "order_line_name g =
     (case g_lot_name g of
        None \<Rightarrow> ''Conversi'' @ o_acute @ ''n de pr'' @ e_acute @ ''stamo''
      | Some n \<Rightarrow>
          if n = [] then ''Conversi'' @ o_acute @ ''n de pr'' @ e_acute @ ''stamo''
          else ''Conversi'' @ o_acute @ ''n pr'' @ e_acute @ ''stamo - S/N: '' @ n)"

text \<open>
  The sales subsystem creates the order and its lines; the order gets the next id and the
  lines the ids after it, in the order of the groups. The order is then linked to the
  loan by an assignment on the transfer.
\<close>

definition make_order_lines :: "nat \<Rightarrow> group_data list \<Rightarrow> sale_order_line list" where
  "make_order_lines first gs =
     map (\<lambda>(i, g). \<lparr> sol_id = first + i, sol_product_id = g_product_id g,
                      sol_name = order_line_name g, price_unit = g_price g,
                      product_uom_qty = g_quantity g \<rparr>)
       (enumerate 0 gs)"

definition create_sale_order ::
  "db \<Rightarrow> clock \<Rightarrow> picking \<Rightarrow> resolution_line list \<Rightarrow> error + (sale_order_line list \<times> db)" where
  "create_sale_order d clk loan sale_lines =
     (let groups = map snd (group_lines d sale_lines);
          order_id = next_id d;
          order_line = make_order_lines (Suc order_id) groups
      in case write_picking False clk
                (no_picking_vals \<lparr> pv_conversion_sale_order_id := Some order_id \<rparr>) loan of
           Inl e \<Rightarrow> Inl e
         | Inr loan' \<Rightarrow>
             Inr (order_line,
                  (store_picking d loan') \<lparr> next_id := Suc order_id + length groups \<rparr>))"

fun starts_with :: "'a list \<Rightarrow> 'a list \<Rightarrow> bool" where
  "starts_with [] s = True"
| "starts_with (c # cs) [] = False"
| "starts_with (c # cs) (x # xs) = (c = x \<and> starts_with cs xs)"

fun contains :: "'a list \<Rightarrow> 'a list \<Rightarrow> bool" where
  "contains p [] = (p = [])"
| "contains p (x # xs) = (starts_with p (x # xs) \<or> contains p xs)"

definition matching_order_line ::
  "db \<Rightarrow> sale_order_line list \<Rightarrow> resolution_line \<Rightarrow> sale_order_line option" where
  "matching_order_line d order_line l =
     find (\<lambda>sol. sol_product_id sol = line_product_id l \<and>
                 (case line_lot_id l of
                    None \<Rightarrow> True
                  | Some lot \<Rightarrow> contains (lot_names d lot) (sol_name sol)))
       order_line"

definition singleton_error :: error where
  "singleton_error = ValueError [Txt ''Expected singleton: loan.tracking.detail()'']"

text \<open>
  A line whose tracking row is gone refers to an empty record set: \<open>ensure_one\<close> of the
  marking method raises on it, and a plain \<open>write\<close> on it does nothing.
\<close>

fun mark_sold_lines ::
  "db \<Rightarrow> clock \<Rightarrow> sale_order_line list \<Rightarrow> resolution_line list \<Rightarrow> error + db" where
  "mark_sold_lines d clk order_line [] = Inr d"
| "mark_sold_lines d clk order_line (l # ls) =
     (case find_detail d (tracking_detail_id l) of
        None \<Rightarrow> Inl singleton_error
      | Some r \<Rightarrow>
          (case action_mark_as_sold (products d) clk r (matching_order_line d order_line l)
                  (Some (unit_price l)) of
             Inl e \<Rightarrow> Inl e
           | Inr r' \<Rightarrow> mark_sold_lines (store_detail d r') clk order_line ls))"

definition process_sales :: "db \<Rightarrow> clock \<Rightarrow> picking \<Rightarrow> wizard \<Rightarrow> error + db" where
  "process_sales d clk loan w =
     (let sale_lines = lines_of_type Buy w in
      if sale_lines = [] then Inr d
      else
        (case create_sale_order d clk loan sale_lines of
           Inl e \<Rightarrow> Inl e
         | Inr (order_line, d1) \<Rightarrow> mark_sold_lines d1 clk order_line sale_lines))"

subsection \<open>Returns\<close>

text \<open>
  \<open>_create_return_picking\<close>. The return transfer takes the operation type of the loan and
  its values name no \<open>loaned_to_partner_id\<close> and no \<open>loan_return_origin_id\<close>. \<open>create\<close> of
  this module sets \<open>is_loan\<close> on a transfer whose operation type belongs to a loans
  warehouse; the constraint \<open>_check_loan_requirements\<close>, declared on \<open>is_loan\<close>, then runs
  and its first check rejects a loan without partner, so its later checks are not reached
  for these values. Otherwise the inventory engine stores and confirms the transfer.
\<close>

definition new_return_picking :: "db \<Rightarrow> picking \<Rightarrow> nat \<Rightarrow> resolution_line list \<Rightarrow> picking" where
  "new_return_picking d loan dest return_lines =
     \<lparr> pk_id = next_id d, pk_name = [], is_loan = False,
       type_warehouse_is_loans = type_warehouse_is_loans loan,
       loan_return_origin_id = None, loaned_to_partner_id = None,
       loan_state = Some Loan_active, loan_expected_return_date = None, loan_notes = [],
       conversion_sale_order_id = None, overdue_days = 0, pk_is_overdue = False,
       state = Confirmed, date_done = None, location_dest_id = dest, user_id = None,
       move_ids_without_package =
         map (\<lambda>l. \<lparr> move_product_id = line_product_id l, move_line_ids = [] \<rparr>) return_lines \<rparr>"

definition create_return_picking ::
  "db \<Rightarrow> picking \<Rightarrow> resolution_line list \<Rightarrow> error + db" where
  "create_return_picking d loan return_lines =
     (case main_warehouse d of
        None \<Rightarrow>
          Inl (UserError
            [Txt (''No se encontr'' @ o_acute @ '' almac'' @ e_acute @ ''n principal para devoluciones.'')])
      | Some dest \<Rightarrow>
          if type_warehouse_is_loans loan then
            Inl (UserError
              [Txt (''Los pr'' @ e_acute @ ''stamos deben tener un cliente destino asignado.'')])
          else
            Inr (d \<lparr> pickings := pickings d @ [new_return_picking d loan dest return_lines],
                     next_id := Suc (next_id d) \<rparr>))"

fun mark_pending_lines :: "db \<Rightarrow> clock \<Rightarrow> resolution_line list \<Rightarrow> error + db" where
  "mark_pending_lines d clk [] = Inr d"
| "mark_pending_lines d clk (l # ls) =
     (case find_detail d (tracking_detail_id l) of
        None \<Rightarrow> mark_pending_lines d clk ls
      | Some r \<Rightarrow>
          (case write_detail (products d) clk
                  (no_vals \<lparr> v_status := Some Pending_resolution,
                             v_notes := Some [Txt (''Marcado para devoluci'' @ o_acute @ ''n el ''),
                                              Day (today clk),
                                              Txt (''. Condici'' @ o_acute @ ''n: ''),
                                              Txt (return_condition l)] \<rparr>) r of
             Inl e \<Rightarrow> Inl e
           | Inr r' \<Rightarrow> mark_pending_lines (store_detail d r') clk ls))"

definition process_returns :: "db \<Rightarrow> clock \<Rightarrow> picking \<Rightarrow> wizard \<Rightarrow> error + db" where
  "process_returns d clk loan w =
     (let return_lines = lines_of_type Return w in
      if return_lines = [] then Inr d
      else
        (case create_return_picking d loan return_lines of
           Inl e \<Rightarrow> Inl e
         | Inr d1 \<Rightarrow> mark_pending_lines d1 clk return_lines))"

subsection \<open>Continued loans and the state of the loan\<close>

fun extend_lines :: "db \<Rightarrow> clock \<Rightarrow> resolution_line list \<Rightarrow> error + db" where
  "extend_lines d clk [] = Inr d"
| "extend_lines d clk (l # ls) =
     (case find_detail d (tracking_detail_id l) of
        None \<Rightarrow> extend_lines d clk ls
      | Some r \<Rightarrow>
          (case write_detail (products d) clk
                  (no_vals \<lparr> v_notes := Some [Txt (''Pr'' @ e_acute @ ''stamo extendido el ''),
                                              Day (today clk),
                                              Txt (''. Resoluci'' @ o_acute @ ''n: mantener en pr''
                                                   @ e_acute @ ''stamo.'')] \<rparr>) r of
             Inl e \<Rightarrow> Inl e
           | Inr r' \<Rightarrow> extend_lines (store_detail d r') clk ls))"

definition process_continued_loans :: "db \<Rightarrow> clock \<Rightarrow> wizard \<Rightarrow> error + db" where
  "process_continued_loans d clk w = extend_lines d clk (lines_of_type Keep_loan w)"

text \<open>
  \<open>_update_original_loan_state\<close> of the workflow writes the new state and the notes with
  one call of \<open>write\<close> on the loan transfer, as the database holds it at that point.
\<close>

definition wizard_update_original_loan_state :: "db \<Rightarrow> clock \<Rightarrow> wizard \<Rightarrow> error + db" where
  "wizard_update_original_loan_state d clk w =
     (case find_picking d (wiz_picking_id w) of
        None \<Rightarrow> Inr d
      | Some loan \<Rightarrow>
          (let new_state = (if has_continued_loans w then Partially_resolved else Completed) in
           case write_picking False clk
                  (no_picking_vals
                     \<lparr> pv_loan_state := Some new_state,
                       pv_loan_notes :=
                         Some (loan_notes loan @
                               [Txt (''\<newline>\<newline>Resoluci'' @ o_acute @ ''n ''), Day (today clk), Txt '': '']
                               @ (if wiz_notes w = [] then [Txt ''Procesado''] else wiz_notes w)) \<rparr>)
                  loan of
             Inl e \<Rightarrow> Inl e
           | Inr loan' \<Rightarrow> Inr (store_picking d loan')))"

subsection \<open>\<open>action_process_resolution\<close>\<close>

definition error_text :: "error \<Rightarrow> message" where
  "error_text e =
     (case e of UserError m \<Rightarrow> m | ValidationError m \<Rightarrow> m | ValueError m \<Rightarrow> m
      | MissingError m \<Rightarrow> m | ZeroDivisionError \<Rightarrow> [Txt ''division by zero''])"

definition resolution_steps :: "db \<Rightarrow> clock \<Rightarrow> picking \<Rightarrow> wizard \<Rightarrow> error + db" where
  "resolution_steps d clk loan w =
     (case (if has_sales w then process_sales d clk loan w else Inr d) of
        Inl e \<Rightarrow> Inl e
      | Inr d1 \<Rightarrow>
          (case (if has_returns w then process_returns d1 clk loan w else Inr d1) of
             Inl e \<Rightarrow> Inl e
           | Inr d2 \<Rightarrow>
               (case (if has_continued_loans w then process_continued_loans d2 clk w
                      else Inr d2) of
                  Inl e \<Rightarrow> Inl e
                | Inr d3 \<Rightarrow> wizard_update_original_loan_state d3 clk w)))"

text \<open>
  The validation runs before the handler; every error of the four steps is caught and
  raised again as one usage error that quotes it. The transfer of the workflow is a
  required reference. The notification the method returns is presentation and is left
  out: the result is the database after the four steps.
\<close>

definition action_process_resolution :: "db \<Rightarrow> clock \<Rightarrow> wizard \<Rightarrow> error + db" where
  "action_process_resolution d clk w =
     (case validate_resolution d w of
        Inl e \<Rightarrow> Inl e
      | Inr _ \<Rightarrow>
          (case find_picking d (wiz_picking_id w) of
             None \<Rightarrow> Inl (MissingError [Txt ''stock.picking''])
           | Some loan \<Rightarrow>
               (case resolution_steps d clk loan w of
                  Inl e \<Rightarrow>
                    Inl (UserError
                      (Txt (''Error al procesar la resoluci'' @ o_acute @ ''n del pr'' @ e_acute
                            @ ''stamo: '') # error_text e))
                | Inr d' \<Rightarrow> Inr d')))"

section \<open>Analytics of the ledger\<close>

record analytics =
  total_loans :: nat
  active_loans :: nat
  overdue_loans :: nat
  sold_conversions :: nat
  returns_good :: nat
  returns_damaged :: nat
  avg_days_in_loan :: rat
  conversion_rate :: rat

definition truediv :: "rat \<Rightarrow> rat \<Rightarrow> error + rat" where
  "truediv a b = (if b = 0 then Inl ZeroDivisionError else Inr (round_float (a / b)))"

text \<open>
  The search domain of \<open>get_loan_analytics\<close>. A bound that is missing adds no condition;
  neither does a list of partners that is missing or empty (\<open>[]\<close> stands for both).
\<close>

definition analytics_domain ::
  "int option \<Rightarrow> int option \<Rightarrow> nat list \<Rightarrow> loan_tracking_detail \<Rightarrow> bool" where
  "analytics_domain date_from date_to partner_ids r =
     ((case date_from of None \<Rightarrow> True | Some f \<Rightarrow> loan_date r \<ge> f) \<and>
      (case date_to of None \<Rightarrow> True | Some t \<Rightarrow> loan_date r \<le> t) \<and>
      (if partner_ids = [] then True
       else (case partner_id r of None \<Rightarrow> False | Some p \<Rightarrow> p \<in> set partner_ids)))"

definition get_loan_analytics ::
  "db \<Rightarrow> int option \<Rightarrow> int option \<Rightarrow> nat list \<Rightarrow> error + analytics" where
  "get_loan_analytics d date_from date_to partner_ids =
     (let records = search_details d (analytics_domain date_from date_to partner_ids);
          sold = filter (\<lambda>r. status r = Sold) records
      in case (if records \<noteq> []
               then truediv (of_int (sum_list (map days_in_loan records))) (of_nat (length records))
               else Inr 0) of
           Inl e \<Rightarrow> Inl e
         | Inr avg \<Rightarrow>
             (case (if records \<noteq> []
                    then (case truediv (of_nat (length sold)) (of_nat (length records)) of
                            Inl e \<Rightarrow> Inl e | Inr q \<Rightarrow> Inr (round_float (q * 100)))
                    else Inr 0) of
                Inl e \<Rightarrow> Inl e
              | Inr rate \<Rightarrow>
                  Inr \<lparr> total_loans = length records,
                        active_loans = length (filter (\<lambda>r. status r = Active) records),
                        overdue_loans = length (filter is_overdue records),
                        sold_conversions = length sold,
                        returns_good = length (filter (\<lambda>r. status r = Returned_good) records),
                        returns_damaged =
                          length (filter (\<lambda>r. status r = Returned_damaged \<or>
                                              status r = Returned_defective) records),
                        avg_days_in_loan = avg,
                        conversion_rate = rate \<rparr>))"

section \<open>Overdue reminders\<close>

record mail_activity =
  act_res_model :: string
  act_res_id :: nat
  activity_type_id :: "nat option"
  summary :: message
  date_deadline :: int
  act_user_id :: nat

text \<open>
  The activity subsystem: the open activities, the activity types by id with their
  names (in search order), the type the reference \<open>mail.mail_activity_data_todo\<close> resolves
  to (if it exists), and the current user. The HTML note of an activity is left out.
\<close>

record mail_db =
  activities :: "mail_activity list"
  activity_types :: "(nat \<times> string) list"
  todo_ref :: "nat option"
  env_user :: nat

text \<open>
  \<open>ilike\<close>: the pattern occurs in the text, letters compared without case. Case is folded
  for the ASCII letters and for the accented Latin letters, whose UTF-8 encoding is the
  byte \<open>0xC3\<close> and a second byte.
\<close>

definition lower_ascii :: "char \<Rightarrow> char" where
  "lower_ascii c =
     (let n = (of_char c :: nat) in if 65 \<le> n \<and> n \<le> 90 then char_of (n + 32) else c)"

definition upper_latin :: "char \<Rightarrow> bool" where
  "upper_latin c = (let n = (of_char c :: nat) in 128 \<le> n \<and> n \<le> 158 \<and> n \<noteq> 151)"

fun lower_text :: "string \<Rightarrow> string" where
  "lower_text [] = []"
| "lower_text [c] = [lower_ascii c]"
| "lower_text (c # x # xs) =
     (if c = CHR 0xC3 \<and> upper_latin x
      then c # char_of ((of_char x :: nat) + 32) # lower_text xs
      else lower_ascii c # lower_text (x # xs))"

definition ilike :: "string \<Rightarrow> string \<Rightarrow> bool" where
  "ilike text pattern = contains (lower_text pattern) (lower_text text)"

definition overdue_pattern :: string where
  "overdue_pattern = ''pr'' @ e_acute @ ''stamo vencido''"

definition is_overdue_reminder :: "mail_db \<Rightarrow> clock \<Rightarrow> picking \<Rightarrow> mail_activity \<Rightarrow> bool" where
  "is_overdue_reminder m clk p a =
     (act_res_model a = ''stock.picking'' \<and> act_res_id a = pk_id p \<and>
      (case activity_type_id a of
         None \<Rightarrow> False
       | Some t \<Rightarrow>
           (case map_of (activity_types m) t of
              None \<Rightarrow> False
            | Some type_name \<Rightarrow> ilike type_name overdue_pattern)) \<and>
      date_deadline a \<ge> today clk)"

definition create_overdue_activity :: "mail_db \<Rightarrow> clock \<Rightarrow> picking \<Rightarrow> mail_db" where
  "create_overdue_activity m clk p =
     (if filter (is_overdue_reminder m clk p) (activities m) \<noteq> [] then m
      else
        (let activity_type =
               (case todo_ref m of
                  Some t \<Rightarrow> Some t
                | None \<Rightarrow> (case activity_types m of [] \<Rightarrow> None | (t, _) # _ \<Rightarrow> Some t))
         in m \<lparr> activities := activities m @
                  [\<lparr> act_res_model = ''stock.picking'', act_res_id = pk_id p,
                     activity_type_id = activity_type,
                     summary = [Txt (''Pr'' @ e_acute @ ''stamo Vencido - ''), Txt (pk_name p)],
                     date_deadline = today clk,
                     act_user_id = or_else (user_id p) (env_user m) \<rparr>] \<rparr>))"

definition cron_check_overdue_loans :: "picking list \<Rightarrow> clock \<Rightarrow> mail_db \<Rightarrow> mail_db" where
  "cron_check_overdue_loans ps clk m =
     foldl (\<lambda>m' p. create_overdue_activity m' clk p) m
       (filter (\<lambda>p. pk_is_overdue p \<and> active_family (loan_state p)) ps)"

section \<open>The valuation tracker: \<open>loan.valuation.tracker\<close>\<close>

datatype valuation_resolution = Valuation_sold | Valuation_returned

record loan_valuation_tracker =
  vt_id :: nat
  vt_picking_id :: nat
  vt_product_id :: "nat option"
  vt_lot_id :: "nat option"
  vt_loan_date :: int
  vt_original_cost :: rat
  current_cost :: rat
  valuation_difference :: rat
  is_resolved :: bool
  vt_resolution_type :: "valuation_resolution option"
  final_cost :: rat

record valuation_db =
  vd_products :: "nat \<Rightarrow> product"
  trackers :: "loan_valuation_tracker list"
  vd_next_id :: nat

definition compute_current_cost ::
  "(nat \<Rightarrow> product) \<Rightarrow> loan_valuation_tracker \<Rightarrow> loan_valuation_tracker" where
  "compute_current_cost prods r =
     (case vt_product_id r of
        Some p \<Rightarrow> r \<lparr> current_cost := standard_price (prods p) \<rparr>
      | None \<Rightarrow> r \<lparr> current_cost := 0 \<rparr>)"

definition compute_valuation_difference :: "loan_valuation_tracker \<Rightarrow> loan_valuation_tracker" where
  "compute_valuation_difference r =
     r \<lparr> valuation_difference := round_float (current_cost r - vt_original_cost r) \<rparr>"

text \<open>
  Both fields are declared \<open>store=True\<close>: the value is kept in the row, a read returns the
  kept value, and the framework recomputes it when a field named in the \<open>depends\<close> of its
  compute method is written. A dependency on a field of the product is written as a
  path through \<open>product_id\<close>.
\<close>

definition current_cost_depends :: "string list" where
  "current_cost_depends = [''product_id'']"

definition valuation_difference_depends :: "string list" where
  "valuation_difference_depends = [''original_cost'', ''current_cost'']"

definition recompute_tracker ::
  "(nat \<Rightarrow> product) \<Rightarrow> string \<Rightarrow> loan_valuation_tracker \<Rightarrow> loan_valuation_tracker" where
  "recompute_tracker prods written r =
     (let cost_due = (written \<in> set current_cost_depends);
          r1 = (if cost_due then compute_current_cost prods r else r)
      in if written \<in> set valuation_difference_depends \<or>
            (cost_due \<and> ''current_cost'' \<in> set valuation_difference_depends)
         then compute_valuation_difference r1 else r1)"

definition read_current_cost :: "loan_valuation_tracker \<Rightarrow> rat" where
  "read_current_cost r = current_cost r"

definition read_valuation_difference :: "loan_valuation_tracker \<Rightarrow> rat" where
  "read_valuation_difference r = valuation_difference r"

text \<open>Creating a row stores its values and computes both fields.\<close>

definition create_tracker ::
  "valuation_db \<Rightarrow> nat \<Rightarrow> nat \<Rightarrow> nat option \<Rightarrow> int \<Rightarrow> valuation_db" where
  "create_tracker v pick pid lot date =
     v \<lparr> trackers := trackers v @
           [compute_valuation_difference (compute_current_cost (vd_products v)
              \<lparr> vt_id = vd_next_id v, vt_picking_id = pick, vt_product_id = Some pid,
                vt_lot_id = lot, vt_loan_date = date,
                vt_original_cost = standard_price (vd_products v pid),
                current_cost = 0, valuation_difference = 0, is_resolved = False,
                vt_resolution_type = None, final_cost = 0 \<rparr>)],
         vd_next_id := Suc (vd_next_id v) \<rparr>"

text \<open>\<open>create_for_loan\<close>: a row for each serial number of a move, or one row for the move.\<close>

definition rows_for_move :: "(nat \<Rightarrow> product) \<Rightarrow> stock_move \<Rightarrow> (nat \<times> nat option) list" where
  "rows_for_move prods m =
     (if tracking (prods (move_product_id m)) = Serial
      then map (\<lambda>ml. (move_product_id m, ml_lot_id ml))
             (filter (\<lambda>ml. ml_lot_id ml \<noteq> None) (move_line_ids m))
      else [(move_product_id m, None)])"

definition create_for_loan :: "valuation_db \<Rightarrow> clock \<Rightarrow> picking \<Rightarrow> valuation_db" where
  "create_for_loan v clk p =
     foldl (\<lambda>v' (pid, lot). create_tracker v' (pk_id p) pid lot (or_else (date_done p) (now clk)))
       v (concat (map (rows_for_move (vd_products v)) (move_ids_without_package p)))"

text \<open>
  A write of the standard price of a product: the product changes, and the rows of the
  tracker are recomputed for the dependency path of that field.
\<close>

definition write_standard_price :: "valuation_db \<Rightarrow> nat \<Rightarrow> rat \<Rightarrow> valuation_db" where
  "write_standard_price v pid cost =
     (let prods = (\<lambda>i. if i = pid then (vd_products v i) \<lparr> standard_price := cost \<rparr>
                        else vd_products v i)
      in v \<lparr> vd_products := prods,
             trackers := map (\<lambda>r. if vt_product_id r = Some pid
                                   then recompute_tracker prods ''product_id.standard_price'' r
                                   else r)
                           (trackers v) \<rparr>)"

definition mark_as_resolved ::
  "loan_valuation_tracker \<Rightarrow> valuation_resolution \<Rightarrow> rat option \<Rightarrow> loan_valuation_tracker" where
  "mark_as_resolved r kind cost =
     r \<lparr> is_resolved := True, vt_resolution_type := Some kind,
         final_cost := price_or cost (vt_original_cost r) \<rparr>"

section \<open>Properties stated by the specification, and example data\<close>

text \<open>
  The pairing of the tracking mode of a product with the lot and the quantity of a row, as
  the data model of the specification states it: a serial number needs a lot and the
  quantity one, a lot-tracked product needs a lot, an untracked product has none.
\<close>

definition tracking_invariant :: "(nat \<Rightarrow> product) \<Rightarrow> loan_tracking_detail \<Rightarrow> bool" where
  "tracking_invariant prods r =
     (if tracking (prods (product_id r)) = Serial then lot_id r \<noteq> None \<and> quantity r = 1
      else if tracking (prods (product_id r)) = Lot then lot_id r \<noteq> None
      else lot_id r = None)"

text \<open>
  The check of \<open>write\<close> admits a new loan state on a transfer that is not a loan, on one
  without a state, and on a loan whose state lists the new one in the table.
\<close>

definition transition_admitted :: "picking \<Rightarrow> loan_state \<Rightarrow> bool" where
  "transition_admitted p t =
     (if is_loan p
      then (case loan_state p of None \<Rightarrow> True | Some s \<Rightarrow> t \<in> set (valid_transitions s))
      else True)"

definition example_products :: "nat \<Rightarrow> product" where
  "example_products i =
     (if i = 1 then \<lparr> product_name = ''Sensor'', tracking = Serial, standard_price = 100,
                      list_price = 150 \<rparr>
      else if i = 2 then \<lparr> product_name = ''Resin'', tracking = Lot, standard_price = 40,
                           list_price = 60 \<rparr>
      else \<lparr> product_name = ''Cable'', tracking = No_tracking, standard_price = 10,
             list_price = 15 \<rparr>)"

definition example_clock :: clock where
  "example_clock = \<lparr> now = 200000, today = 2 \<rparr>"

text \<open>One active row: three units of the untracked product 3, lent by transfer 10.\<close>

definition example_detail :: loan_tracking_detail where
  "example_detail =
     \<lparr> detail_id = 1, picking_id = 10, product_id = 3, lot_id = None, quantity = 3,
       status = Active, loan_date = 0, resolution_date = None, expected_return_date = None,
       partner_id = Some 7, original_cost = 10, sale_price = 0, sale_order_line_id = None,
       return_picking_id = None, days_in_loan = 0, is_overdue = False, detail_notes = [],
       return_condition_notes = [] \<rparr>"

definition example_serial_detail :: loan_tracking_detail where
  "example_serial_detail = example_detail \<lparr> detail_id := 2, product_id := 1, lot_id := Some 5,
     quantity := 1 \<rparr>"

definition example_sale_line :: sale_order_line where
  "example_sale_line =
     \<lparr> sol_id = 31, sol_product_id = 3, sol_name = ''Conversion'', price_unit = 15,
       product_uom_qty = 3 \<rparr>"

definition example_loan :: picking where
  "example_loan =
     \<lparr> pk_id = 10, pk_name = ''LOAN/0001'', is_loan = True, type_warehouse_is_loans = True,
       loan_return_origin_id = None, loaned_to_partner_id = Some 7,
       loan_state = Some Loan_active, loan_expected_return_date = Some 1, loan_notes = [],
       conversion_sale_order_id = None, overdue_days = 1, pk_is_overdue = True, state = Done,
       date_done = Some 0, location_dest_id = 50, user_id = Some 2,
       move_ids_without_package =
         [\<lparr> move_product_id = 3, move_line_ids = [\<lparr> ml_lot_id = None, qty_done = 3 \<rparr>] \<rparr>] \<rparr>"

text \<open>A confirmed return transfer for the loan 10, bringing back \<open>q\<close> units of product 3.\<close>

definition example_return :: "rat \<Rightarrow> picking" where
  "example_return q =
     \<lparr> pk_id = 20, pk_name = ''RET/0001'', is_loan = False, type_warehouse_is_loans = False,
       loan_return_origin_id = Some 10, loaned_to_partner_id = None,
       loan_state = Some Loan_active, loan_expected_return_date = None, loan_notes = [],
       conversion_sale_order_id = None, overdue_days = 0, pk_is_overdue = False, state = Done,
       date_done = Some 200000, location_dest_id = 60, user_id = Some 2,
       move_ids_without_package =
         [\<lparr> move_product_id = 3, move_line_ids = [\<lparr> ml_lot_id = None, qty_done = q \<rparr>] \<rparr>] \<rparr>"

definition example_db :: "picking \<Rightarrow> db" where
  "example_db loan =
     \<lparr> products = example_products, lot_names = (\<lambda>_. []), details = [example_detail],
       pickings = [loan], next_id = 100, main_warehouse = Some 60 \<rparr>"

definition example_line :: "resolution_type \<Rightarrow> rat \<Rightarrow> resolution_line" where
  "example_line t price =
     \<lparr> tracking_detail_id = 1, line_product_id = 3, line_lot_id = None, loaned_qty = 3,
       qty_to_resolve = 1, resolution_type = Some t, unit_price = price,
       return_condition = ''good'' \<rparr>"

text \<open>The submission of the round trip: one unit bought, one returned, one kept.\<close>

definition example_wizard :: wizard where
  "example_wizard =
     \<lparr> wiz_picking_id = 10, wiz_partner_id = Some 7, wiz_resolution_date = 200000,
       wiz_notes = [],
       resolution_line_ids =
         [example_line Buy 15, example_line Return 0, example_line Keep_loan 0] \<rparr>"

text \<open>The activity subsystem as installed: the to-do type is named \<open>To-Do\<close>.\<close>

definition example_mail :: mail_db where
  "example_mail =
     \<lparr> activities = [], activity_types = [(4, ''To-Do''), (5, ''Call'')], todo_ref = Some 4,
       env_user = 1 \<rparr>"

definition example_valuation :: valuation_db where
  "example_valuation = \<lparr> vd_products = example_products, trackers = [], vd_next_id = 1 \<rparr>"

section \<open>Theorems\<close>

subsection \<open>Rounding\<close>

lemma normalise_numeral:
  "normalise (numeral k) m e =
     (if m < 2 ^ 52 then normalise (pred_numeral k) (m * 2) (e - 1)
      else if 2 ^ 53 \<le> m then normalise (pred_numeral k) (m / 2) (e + 1)
      else (m, e))"
  by (simp add: numeral_eq_Suc)

lemmas rounding_defs = round_float_def float_sum_def round_half_even_def normalise_numeral
  Let_def

text \<open>Small whole numbers are floats: rounding leaves them as they are.\<close>

lemma round_float_small:
  "round_float 0 = 0" "round_float 1 = 1" "round_float 2 = 2" "round_float 3 = 3"
  by (simp_all add: rounding_defs)

lemmas example_defs = example_products_def example_clock_def example_detail_def
  example_serial_detail_def example_sale_line_def example_loan_def example_return_def
  example_db_def example_line_def example_wizard_def

lemmas detail_defs = action_mark_as_sold_def action_mark_as_returned_def write_detail_def
  create_detail_def no_vals_def apply_vals_def or_else_def touches_resolution_def
  touches_tracking_def check_resolution_consistency_def check_tracking_consistency_def
  is_returned_def recompute_stored_def compute_days_in_loan_def compute_overdue_status_def
  price_or_def status_mapping_def Let_def

lemmas picking_defs = write_picking_def validate_state_transition_def valid_transitions_def
  store_picking_vals_def no_picking_vals_def compute_overdue_days_def active_family_def

lemmas db_defs = search_details_def find_detail_def find_picking_def store_detail_def
  store_picking_def assign_loan_state_def copy_detail_def

lemmas return_defs = button_validate_def update_loan_tracking_on_return_def
  update_original_loan_state_def

subsection \<open>The tracking check\<close>

lemma check_tracking_iff:
  "(check_tracking_consistency prods r = Inr ()) = tracking_invariant prods r"
  by (simp add: check_tracking_consistency_def tracking_invariant_def Let_def)

lemma check_tracking_error:
  "check_tracking_consistency prods r = Inr () \<or>
   (\<exists>m. check_tracking_consistency prods r = Inl (ValidationError m))"
  by (simp add: check_tracking_consistency_def Let_def)

lemma check_resolution_error:
  "(\<exists>r'. check_resolution_consistency clk r = Inr r' \<and> product_id r' = product_id r \<and>
          lot_id r' = lot_id r \<and> quantity r' = quantity r) \<or>
   (\<exists>m. check_resolution_consistency clk r = Inl (ValidationError m))"
  by (simp add: check_resolution_consistency_def)

lemma check_resolution_keeps_tracking:
  "check_resolution_consistency clk r = Inr r' \<Longrightarrow>
     product_id r' = product_id r \<and> lot_id r' = lot_id r \<and> quantity r' = quantity r"
  by (auto simp: check_resolution_consistency_def split: if_splits)

lemma recompute_keeps_tracking:
  "product_id (recompute_stored clk vals b r) = product_id r \<and>
   lot_id (recompute_stored clk vals b r) = lot_id r \<and>
   quantity (recompute_stored clk vals b r) = quantity r"
  by (simp add: recompute_stored_def compute_days_in_loan_def compute_overdue_status_def Let_def)

lemma tracking_invariant_cong:
  "product_id r' = product_id r \<Longrightarrow> lot_id r' = lot_id r \<Longrightarrow> quantity r' = quantity r \<Longrightarrow>
     tracking_invariant prods r' = tracking_invariant prods r"
  by (simp add: tracking_invariant_def)

lemma apply_vals_keeps_tracking:
  "\<not> touches_tracking vals \<Longrightarrow>
     product_id (apply_vals vals r) = product_id r \<and> lot_id (apply_vals vals r) = lot_id r \<and>
     quantity (apply_vals vals r) = quantity r"
  by (simp add: touches_tracking_def apply_vals_def or_else_def)

lemma write_detail_invariant:
  assumes w: "write_detail prods clk vals r = Inr r'" and inv: "tracking_invariant prods r"
  shows "tracking_invariant prods r'"
proof -
  obtain r2 where r2: "(if touches_resolution vals
                         then check_resolution_consistency clk (apply_vals vals r)
                         else Inr (apply_vals vals r)) = Inr r2"
    and chk: "(if touches_tracking vals then check_tracking_consistency prods r2 else Inr ())
              = Inr ()"
    and r': "r' = recompute_stored clk vals
                    (resolution_date r2 \<noteq> resolution_date (apply_vals vals r)) r2"
    using w by (auto simp: write_detail_def Let_def split: sum.splits)
  have same: "product_id r2 = product_id (apply_vals vals r) \<and>
              lot_id r2 = lot_id (apply_vals vals r) \<and>
              quantity r2 = quantity (apply_vals vals r)"
    using r2 check_resolution_keeps_tracking by (auto split: if_splits)
  have "tracking_invariant prods r2"
  proof (cases "touches_tracking vals")
    case True
    then show ?thesis using chk by (simp add: check_tracking_iff)
  next
    case False
    then show ?thesis
      using inv same apply_vals_keeps_tracking [OF False, of r]
        tracking_invariant_cong [of r2 r prods] by simp
  qed
  then show ?thesis
    using r' recompute_keeps_tracking [of clk vals _ r2]
      tracking_invariant_cong [of r' r2 prods] by simp
qed

lemma create_detail_invariant:
  assumes "create_detail prods clk r = Inr r'"
  shows "tracking_invariant prods r'"
proof -
  obtain r2 where "check_tracking_consistency prods r2 = Inr ()"
    and "r' = compute_overdue_status clk (compute_days_in_loan clk r2)"
    using assms by (auto simp: create_detail_def split: sum.splits)
  then show ?thesis
    using tracking_invariant_cong [of r' r2 prods]
    by (simp add: check_tracking_iff compute_overdue_status_def compute_days_in_loan_def Let_def)
qed

lemma write_detail_rejects:
  assumes t: "touches_tracking vals" and bad: "\<not> tracking_invariant prods (apply_vals vals r)"
  shows "\<exists>m. write_detail prods clk vals r = Inl (ValidationError m)"
proof (cases "touches_resolution vals")
  case False
  then show ?thesis
    using t bad check_tracking_error [of prods "apply_vals vals r"]
    by (auto simp: write_detail_def Let_def check_tracking_iff)
next
  case True
  from check_resolution_error [of clk "apply_vals vals r"] show ?thesis
  proof
    assume "\<exists>m. check_resolution_consistency clk (apply_vals vals r) = Inl (ValidationError m)"
    then show ?thesis using True by (auto simp: write_detail_def Let_def)
  next
    assume "\<exists>r'. check_resolution_consistency clk (apply_vals vals r) = Inr r' \<and>
              product_id r' = product_id (apply_vals vals r) \<and>
              lot_id r' = lot_id (apply_vals vals r) \<and> quantity r' = quantity (apply_vals vals r)"
    then obtain r2 where r2: "check_resolution_consistency clk (apply_vals vals r) = Inr r2"
      and same: "product_id r2 = product_id (apply_vals vals r)"
        "lot_id r2 = lot_id (apply_vals vals r)" "quantity r2 = quantity (apply_vals vals r)"
      by blast
    have "\<not> tracking_invariant prods r2"
      using bad tracking_invariant_cong [OF same, of prods] by simp
    then obtain m where "check_tracking_consistency prods r2 = Inl (ValidationError m)"
      using check_tracking_error [of prods r2] by (auto simp: check_tracking_iff)
    then show ?thesis using True t r2 by (simp add: write_detail_def Let_def)
  qed
qed

text \<open>
  Claim C7, as amended. The tracking check accepts a row exactly when the product's
  tracking mode implies its pairing: serial implies a lot and the quantity one, lot
  implies a lot, and an untracked product has no lot; on an accepted row, "untracked" and
  "no lot" are equivalent. The converse of the first two implications is not enforced.
  Every rejection is a validation error. A created row satisfies the pairing, every
  write keeps it, and a write that names the quantity, the product or the lot and would
  break it is rejected with a validation error.
\<close>

theorem tracking_consistency_enforced:
  "(check_tracking_consistency prods r = Inr ()) =
     ((tracking (prods (product_id r)) = Serial \<longrightarrow> lot_id r \<noteq> None \<and> quantity r = 1) \<and>
      (tracking (prods (product_id r)) = Lot \<longrightarrow> lot_id r \<noteq> None) \<and>
      (tracking (prods (product_id r)) = No_tracking \<longrightarrow> lot_id r = None))
   \<and> (check_tracking_consistency prods r = Inr () \<longrightarrow>
        (tracking (prods (product_id r)) = No_tracking) = (lot_id r = None))
   \<and> (check_tracking_consistency prods r = Inr () \<or>
        (\<exists>m. check_tracking_consistency prods r = Inl (ValidationError m)))
   \<and> (\<forall>r'. create_detail prods clk r = Inr r' \<longrightarrow> tracking_invariant prods r')
   \<and> (\<forall>r'. tracking_invariant prods r \<and> write_detail prods clk vals r = Inr r' \<longrightarrow>
          tracking_invariant prods r')
   \<and> (touches_tracking vals \<and> \<not> tracking_invariant prods (apply_vals vals r) \<longrightarrow>
        (\<exists>m. write_detail prods clk vals r = Inl (ValidationError m)))"
proof -
  have a: "(check_tracking_consistency prods r = Inr ()) =
     ((tracking (prods (product_id r)) = Serial \<longrightarrow> lot_id r \<noteq> None \<and> quantity r = 1) \<and>
      (tracking (prods (product_id r)) = Lot \<longrightarrow> lot_id r \<noteq> None) \<and>
      (tracking (prods (product_id r)) = No_tracking \<longrightarrow> lot_id r = None))"
    by (cases "tracking (prods (product_id r))")
       (simp_all add: check_tracking_iff tracking_invariant_def)
  have b: "check_tracking_consistency prods r = Inr () \<longrightarrow>
        (tracking (prods (product_id r)) = No_tracking) = (lot_id r = None)"
    by (cases "tracking (prods (product_id r))")
       (simp_all add: check_tracking_iff tracking_invariant_def)
  show ?thesis
    using a b check_tracking_error [of prods r] create_detail_invariant [of prods clk r]
      write_detail_invariant [of prods clk vals r] write_detail_rejects [of vals prods r clk]
    by blast
qed

text \<open>
  The witness: a write that puts a lot on the untracked example row is rejected, and a
  write of its quantity is accepted and keeps the pairing.
\<close>

theorem tracking_consistency_enforced_witness:
  "check_tracking_consistency example_products example_detail = Inr ()
   \<and> (\<exists>m. write_detail example_products example_clock (no_vals \<lparr> v_lot_id := Some (Some 5) \<rparr>)
            example_detail = Inl (ValidationError m))
   \<and> tracking_invariant example_products (example_detail \<lparr> quantity := 2 \<rparr>)"
proof -
  let ?bad = "no_vals \<lparr> v_lot_id := Some (Some 5) \<rparr>"
  let ?ok = "no_vals \<lparr> v_quantity := Some 2 \<rparr>"
  have inv: "tracking_invariant example_products example_detail"
    by (simp add: tracking_invariant_def example_defs)
  have t: "touches_tracking ?bad \<and>
           \<not> tracking_invariant example_products (apply_vals ?bad example_detail)"
    by (simp add: touches_tracking_def no_vals_def apply_vals_def or_else_def
        tracking_invariant_def example_defs)
  have w: "write_detail example_products example_clock ?ok example_detail =
           Inr (example_detail \<lparr> quantity := 2 \<rparr>)"
    by (simp add: detail_defs example_defs)
  from tracking_consistency_enforced [of example_products example_detail example_clock ?bad] t
  have 1: "\<exists>m. write_detail example_products example_clock ?bad example_detail =
             Inl (ValidationError m)"
    by blast
  from tracking_consistency_enforced [of example_products example_detail example_clock ?ok] inv w
  have 2: "tracking_invariant example_products (example_detail \<lparr> quantity := 2 \<rparr>)"
    by blast
  from tracking_consistency_enforced [of example_products example_detail example_clock ?ok] inv
  have 3: "check_tracking_consistency example_products example_detail = Inr ()"
    by (simp add: check_tracking_iff)
  from 1 2 3 show ?thesis by blast
qed

text \<open>
  The counterexample to claim C7 as stated: a row of a product with serial numbers, with
  its lot and the quantity one, is accepted, and yet "lot-tracked if and only if a lot is
  present" is false for it.
\<close>

theorem tracking_biconditional_counterexample:
  "check_tracking_consistency example_products example_serial_detail = Inr ()
   \<and> \<not> ((tracking (example_products (product_id example_serial_detail)) = Lot) =
         (lot_id example_serial_detail \<noteq> None))"
  by (simp add: check_tracking_consistency_def example_defs)

subsection \<open>Marking a row as sold or returned\<close>

text \<open>
  Claim C9. \<open>action_mark_as_sold\<close> on a row that is not active is a usage error, and no row
  is written. When it succeeds the row was active and a sale line was given: the row
  becomes sold, holds the id of the line, the price (the given one, or the line's when
  none or zero is given) and the current time as resolution date; the stored day count
  and overdue flag follow, and nothing else changes. It does succeed on an active row
  with a sale line.
\<close>

theorem mark_as_sold_spec:
  "(status r \<noteq> Active \<longrightarrow>
      action_mark_as_sold prods clk r line price =
        Inl (UserError
          [Txt (''Solo los pr'' @ e_acute @ ''stamos activos pueden marcarse como vendidos.'')]))
   \<and> (\<forall>r'. action_mark_as_sold prods clk r line price = Inr r' \<longrightarrow>
         status r = Active \<and>
         (\<exists>l. line = Some l \<and>
            r' = r \<lparr> status := Sold, sale_order_line_id := Some (sol_id l),
                     sale_price := price_or price (price_unit l),
                     resolution_date := Some (now clk),
                     days_in_loan := (now clk - loan_date r) div 86400,
                     is_overdue := False \<rparr>))
   \<and> (status r = Active \<and> line \<noteq> None \<longrightarrow>
         (\<exists>r'. action_mark_as_sold prods clk r line price = Inr r'))"
  by (cases line)
     (auto simp: action_mark_as_sold_def write_detail_def no_vals_def apply_vals_def or_else_def
        touches_resolution_def touches_tracking_def check_resolution_consistency_def
        is_returned_def recompute_stored_def compute_days_in_loan_def
        compute_overdue_status_def Let_def split: option.splits)

theorem mark_as_sold_spec_witness:
  "action_mark_as_sold example_products example_clock
     (example_detail \<lparr> status := Pending_resolution \<rparr>) (Some example_sale_line) (Some 12) =
     Inl (UserError
       [Txt (''Solo los pr'' @ e_acute @ ''stamos activos pueden marcarse como vendidos.'')])
   \<and> action_mark_as_sold example_products example_clock example_detail
       (Some example_sale_line) (Some 12) =
     Inr (example_detail \<lparr> status := Sold, sale_order_line_id := Some 31, sale_price := 12,
            resolution_date := Some 200000, days_in_loan := 2 \<rparr>)"
proof -
  have a: "status (example_detail \<lparr> status := Pending_resolution \<rparr>) \<noteq> Active" by simp
  have b: "status example_detail = Active \<and> Some example_sale_line \<noteq> None"
    by (simp add: example_detail_def)
  from mark_as_sold_spec [of "example_detail \<lparr> status := Pending_resolution \<rparr>"
      example_products example_clock "Some example_sale_line" "Some 12"] a
  have 1: "action_mark_as_sold example_products example_clock
     (example_detail \<lparr> status := Pending_resolution \<rparr>) (Some example_sale_line) (Some 12) =
     Inl (UserError
       [Txt (''Solo los pr'' @ e_acute @ ''stamos activos pueden marcarse como vendidos.'')])"
    by blast
  from mark_as_sold_spec [of example_detail example_products example_clock
      "Some example_sale_line" "Some 12"] b
  obtain r' where r': "action_mark_as_sold example_products example_clock example_detail
       (Some example_sale_line) (Some 12) = Inr r'"
    and "r' = example_detail \<lparr> status := Sold,
                     sale_order_line_id := Some (sol_id example_sale_line),
                     sale_price := price_or (Some 12) (price_unit example_sale_line),
                     resolution_date := Some (now example_clock),
                     days_in_loan := (now example_clock - loan_date example_detail) div 86400,
                     is_overdue := False \<rparr>"
    by blast
  then have 2: "action_mark_as_sold example_products example_clock example_detail
       (Some example_sale_line) (Some 12) =
     Inr (example_detail \<lparr> status := Sold, sale_order_line_id := Some 31, sale_price := 12,
            resolution_date := Some 200000, days_in_loan := 2 \<rparr>)"
    by (simp add: example_defs price_or_def)
  from 1 2 show ?thesis by blast
qed

text \<open>
  Claim C10. On an active or pending row, with a return transfer, a condition that is none
  of \<open>good\<close>, \<open>damaged\<close> and \<open>defective\<close> raises nothing: the row becomes returned in good
  condition, holds the id of the return transfer and the current time as resolution date.
\<close>

theorem mark_as_returned_fallback:
  assumes "status r = Active \<or> status r = Pending_resolution"
    and "condition \<noteq> ''good''" and "condition \<noteq> ''damaged''" and "condition \<noteq> ''defective''"
  shows "action_mark_as_returned prods clk r (Some rp) condition note =
     Inr (r \<lparr> status := Returned_good, return_picking_id := Some rp,
              resolution_date := Some (now clk), return_condition_notes := or_else note [],
              days_in_loan := (now clk - loan_date r) div 86400, is_overdue := False \<rparr>)"
  using assms by (auto simp: detail_defs)

theorem mark_as_returned_fallback_witness:
  "action_mark_as_returned example_products example_clock
     (example_detail \<lparr> status := Pending_resolution, resolution_date := Some 100 \<rparr>)
     (Some 20) ''broken'' None =
   Inr (example_detail \<lparr> status := Returned_good, return_picking_id := Some 20,
          resolution_date := Some 200000, days_in_loan := 2 \<rparr>)"
proof -
  let ?r = "example_detail \<lparr> status := Pending_resolution, resolution_date := Some 100 \<rparr>"
  have h: "status ?r = Active \<or> status ?r = Pending_resolution" by simp
  have c: "''broken'' \<noteq> ''good''" "''broken'' \<noteq> ''damaged''" "''broken'' \<noteq> ''defective''"
    by simp_all
  from mark_as_returned_fallback [OF h c, of example_products example_clock 20 None]
  show ?thesis by (simp add: example_defs or_else_def)
qed

subsection \<open>The resolution date\<close>

lemma check_resolution_date:
  "check_resolution_consistency clk r = Inr r' \<Longrightarrow>
     resolution_date r' =
       (if status r \<noteq> Active \<and> resolution_date r = None then Some (now clk)
        else resolution_date r) \<and> status r' = status r"
  by (auto simp: check_resolution_consistency_def split: if_splits)

lemma recompute_keeps_resolution:
  "resolution_date (recompute_stored clk vals b r) = resolution_date r \<and>
   status (recompute_stored clk vals b r) = status r"
  by (simp add: recompute_stored_def compute_days_in_loan_def compute_overdue_status_def Let_def)

lemma write_detail_resolution_date:
  assumes w: "write_detail prods clk vals r = Inr r'" and n: "v_resolution_date vals = None"
  shows "resolution_date r' =
           (if touches_resolution vals \<and> status r' \<noteq> Active \<and> resolution_date r = None
            then Some (now clk) else resolution_date r)"
proof -
  let ?r1 = "apply_vals vals r"
  obtain r2 where r2: "(if touches_resolution vals then check_resolution_consistency clk ?r1
                         else Inr ?r1) = Inr r2"
    and r': "r' = recompute_stored clk vals (resolution_date r2 \<noteq> resolution_date ?r1) r2"
    using w by (auto simp: write_detail_def Let_def split: sum.splits)
  have d1: "resolution_date ?r1 = resolution_date r"
    using n by (simp add: apply_vals_def or_else_def)
  have keep: "resolution_date r' = resolution_date r2 \<and> status r' = status r2"
    using r' recompute_keeps_resolution by simp
  show ?thesis
  proof (cases "touches_resolution vals")
    case True
    with r2 have "check_resolution_consistency clk ?r1 = Inr r2" by simp
    from check_resolution_date [OF this] True d1 keep show ?thesis by simp
  next
    case False
    with r2 have "r2 = ?r1" by simp
    with False d1 keep show ?thesis by simp
  qed
qed

lemma mark_as_returned_date:
  "action_mark_as_returned prods clk r rp condition note = Inr r' \<Longrightarrow>
     resolution_date r' = Some (now clk)"
  by (auto simp: detail_defs split: if_splits option.splits)

lemma mark_as_sold_date:
  "action_mark_as_sold prods clk r line price = Inr r' \<Longrightarrow> resolution_date r' = Some (now clk)"
  by (auto simp: detail_defs split: if_splits option.splits)

text \<open>
  Claim C4, as amended. The resolution check stamps the current time on a row that is not
  active and has no resolution date, and leaves a date that is set alone; so a write
  that does not name the resolution date stamps it when it takes the row out of the
  active status and never changes a date that is set. \<open>action_mark_as_sold\<close> and
  \<open>action_mark_as_returned\<close> name the resolution date themselves: after either, it is
  the current time, whatever it was before.
\<close>

theorem resolution_date_stamping:
  "(\<forall>r'. check_resolution_consistency clk r = Inr r' \<longrightarrow>
        resolution_date r' =
          (if status r \<noteq> Active \<and> resolution_date r = None then Some (now clk)
           else resolution_date r))
   \<and> (\<forall>r'. v_resolution_date vals = None \<and> write_detail prods clk vals r = Inr r' \<longrightarrow>
        resolution_date r' =
          (if touches_resolution vals \<and> status r' \<noteq> Active \<and> resolution_date r = None
           then Some (now clk) else resolution_date r))
   \<and> (\<forall>r'. action_mark_as_sold prods clk r line price = Inr r' \<longrightarrow>
        resolution_date r' = Some (now clk))
   \<and> (\<forall>r'. action_mark_as_returned prods clk r rp condition note = Inr r' \<longrightarrow>
        resolution_date r' = Some (now clk))"
  using check_resolution_date [of clk r] write_detail_resolution_date [of prods clk vals r]
    mark_as_sold_date [of prods clk r line price]
    mark_as_returned_date [of prods clk r rp condition "note"]
  by blast

text \<open>
  The witness: marking the active example row as pending stamps the date, and a later
  write of a note leaves the stamped date alone.
\<close>

theorem resolution_date_stamping_witness:
  "(case write_detail example_products example_clock
           (no_vals \<lparr> v_status := Some Pending_resolution \<rparr>) example_detail of
      Inl e \<Rightarrow> None | Inr r' \<Rightarrow> resolution_date r') = Some 200000
   \<and> (case write_detail example_products example_clock (no_vals \<lparr> v_notes := Some [] \<rparr>)
            (example_detail \<lparr> status := Pending_resolution, resolution_date := Some 100 \<rparr>) of
      Inl e \<Rightarrow> None | Inr r' \<Rightarrow> resolution_date r') = Some 100"
proof -
  let ?v1 = "no_vals \<lparr> v_status := Some Pending_resolution \<rparr>"
  let ?v2 = "no_vals \<lparr> v_notes := Some [] \<rparr>"
  let ?r2 = "example_detail \<lparr> status := Pending_resolution, resolution_date := Some 100 \<rparr>"
  obtain a where a: "write_detail example_products example_clock ?v1 example_detail = Inr a"
    and sa: "status a = Pending_resolution"
    by (simp add: detail_defs example_defs)
  obtain b where b: "write_detail example_products example_clock ?v2 ?r2 = Inr b"
    by (simp add: detail_defs example_defs)
  have n: "v_resolution_date ?v1 = None" "v_resolution_date ?v2 = None"
    "touches_resolution ?v1" "\<not> touches_resolution ?v2"
    by (simp_all add: no_vals_def touches_resolution_def)
  from resolution_date_stamping [of example_clock example_detail ?v1 example_products] a sa n
  have 1: "resolution_date a = Some 200000"
    by (simp add: example_defs)
  from resolution_date_stamping [of example_clock ?r2 ?v2 example_products] b n
  have 2: "resolution_date b = Some 100"
    by simp
  from 1 2 a b show ?thesis by simp
qed

text \<open>
  The counterexample to claim C4 as stated: a pending row whose resolution date is 100
  is marked as returned at time 200000, and its resolution date is then 200000.
\<close>

theorem resolution_date_overwritten_counterexample:
  "resolution_date (example_detail \<lparr> status := Pending_resolution, resolution_date := Some 100 \<rparr>)
     = Some 100
   \<and> action_mark_as_returned example_products example_clock
       (example_detail \<lparr> status := Pending_resolution, resolution_date := Some 100 \<rparr>)
       (Some 20) ''good'' None =
     Inr (example_detail \<lparr> status := Returned_good, return_picking_id := Some 20,
            resolution_date := Some 200000, days_in_loan := 2 \<rparr>)"
  by (simp add: detail_defs example_defs)

subsection \<open>Analytics\<close>

lemma search_details_length:
  "length (search_details d P) = length (filter P (details d))"
  by (simp add: search_details_def)

lemma search_details_empty:
  "(search_details d P = []) = (filter P (details d) = [])"
  using search_details_length [of d P] by (metis length_0_conv)

lemma truediv_length:
  "xs \<noteq> [] \<Longrightarrow> truediv a (of_nat (length xs)) = Inr (round_float (a / of_nat (length xs)))"
  by (simp add: truediv_def)

lemma get_loan_analytics_total: "\<exists>a. get_loan_analytics d date_from date_to partner_ids = Inr a"
  by (cases "search_details d (analytics_domain date_from date_to partner_ids) = []")
     (simp_all add: get_loan_analytics_def Let_def truediv_length)

text \<open>
  Claim C8. When no row matches the filters, \<open>get_loan_analytics\<close> returns the record whose
  counts, average and conversion rate are all zero; and for every database and every
  combination of filters it returns a record, never a division error.
\<close>

theorem analytics_no_rows:
  "(filter (analytics_domain date_from date_to partner_ids) (details d) = [] \<longrightarrow>
      get_loan_analytics d date_from date_to partner_ids =
        Inr \<lparr> total_loans = 0, active_loans = 0, overdue_loans = 0, sold_conversions = 0,
              returns_good = 0, returns_damaged = 0, avg_days_in_loan = 0,
              conversion_rate = 0 \<rparr>)
   \<and> (\<exists>a. get_loan_analytics d date_from date_to partner_ids = Inr a)"
  using get_loan_analytics_total [of d date_from date_to partner_ids]
  by (simp add: get_loan_analytics_def Let_def search_details_empty [symmetric])

text \<open>The witness: the example ledger holds a row of partner 7 only; the filter asks for 8.\<close>

theorem analytics_no_rows_witness:
  "get_loan_analytics (example_db example_loan) (Some 0) None [8] =
     Inr \<lparr> total_loans = 0, active_loans = 0, overdue_loans = 0, sold_conversions = 0,
           returns_good = 0, returns_damaged = 0, avg_days_in_loan = 0, conversion_rate = 0 \<rparr>"
proof -
  have "filter (analytics_domain (Some 0) None [8]) (details (example_db example_loan)) = []"
    by (simp add: analytics_domain_def example_defs)
  with analytics_no_rows [of "Some 0" None "[8]" "example_db example_loan"]
  show ?thesis by blast
qed

subsection \<open>The transition table\<close>

lemma transition_table:
  "(t \<in> set (valid_transitions s)) =
     (s = Loan_active \<and> (t = In_trial \<or> t = Resolving) \<or>
      s = In_trial \<and> (t = Resolving \<or> t = Completed) \<or>
      s = Resolving \<and> (t = Partially_resolved \<or> t = Completed) \<or>
      s = Partially_resolved \<and> (t = Resolving \<or> t = Completed))"
  by (cases s) (auto simp: valid_transitions_def)

lemma write_picking_rejected:
  assumes "is_loan p" "loan_state p = Some s" "pv_loan_state vals = Some t"
    "t \<notin> set (valid_transitions s)"
  shows "write_picking ctx clk vals p = Inl (ValidationError (transition_message s t))"
  using assms by (simp add: write_picking_def validate_state_transition_def)

lemma write_picking_admitted:
  assumes "transition_admitted p t" "pv_loan_state vals = Some t"
  shows "\<exists>p'. write_picking ctx clk vals p = Inr p' \<and> loan_state p' = Some t"
  using assms
  by (auto simp: transition_admitted_def write_picking_def validate_state_transition_def
      store_picking_vals_def compute_overdue_days_def Let_def split: option.splits if_splits)

text \<open>
  Claim C2, as amended. On a transfer that is a loan and has a state, a write of a new loan
  state outside the table fails with the validation error whose message holds the keys
  of both states; the table is the one of the specification and \<open>completed\<close> has no
  successor. A write the check admits (the new state is in the table, or the transfer is
  not a loan, or it has no state) stores the new state.
\<close>

theorem loan_state_transitions_checked:
  "(is_loan p \<and> loan_state p = Some s \<and> pv_loan_state vals = Some t \<and>
      t \<notin> set (valid_transitions s) \<longrightarrow>
        write_picking ctx clk vals p = Inl (ValidationError (transition_message s t)) \<and>
        Txt (loan_state_key s) \<in> set (transition_message s t) \<and>
        Txt (loan_state_key t) \<in> set (transition_message s t))
   \<and> (transition_admitted p t \<and> pv_loan_state vals = Some t \<longrightarrow>
        (\<exists>p'. write_picking ctx clk vals p = Inr p' \<and> loan_state p' = Some t))
   \<and> ((t \<in> set (valid_transitions s)) =
        (s = Loan_active \<and> (t = In_trial \<or> t = Resolving) \<or>
         s = In_trial \<and> (t = Resolving \<or> t = Completed) \<or>
         s = Resolving \<and> (t = Partially_resolved \<or> t = Completed) \<or>
         s = Partially_resolved \<and> (t = Resolving \<or> t = Completed)))
   \<and> valid_transitions Completed = []"
proof -
  have m: "Txt (loan_state_key s) \<in> set (transition_message s t) \<and>
           Txt (loan_state_key t) \<in> set (transition_message s t)"
    by (simp add: transition_message_def)
  have c: "valid_transitions Completed = []" by (simp add: valid_transitions_def)
  show ?thesis
    using m c transition_table [of t s] write_picking_rejected [of p s vals t ctx clk]
      write_picking_admitted [of p t vals ctx clk]
    by blast
qed

text \<open>
  The witness: on the example loan, once completed, the write of \<open>active\<close> fails and the
  message reads "completed", arrow, "active"; from \<open>active\<close> the write of \<open>resolving\<close>
  succeeds.
\<close>

theorem loan_state_transitions_checked_witness:
  "write_picking False example_clock (no_picking_vals \<lparr> pv_loan_state := Some Loan_active \<rparr>)
     (example_loan \<lparr> loan_state := Some Completed \<rparr>) =
     Inl (ValidationError
       [Txt (''Transici'' @ o_acute @ ''n de estado no v'' @ a_acute @ ''lida: ''),
        Txt ''completed'', Txt ('' '' @ right_arrow @ '' ''), Txt ''active''])
   \<and> (\<exists>p'. write_picking False example_clock
             (no_picking_vals \<lparr> pv_loan_state := Some Resolving \<rparr>) example_loan = Inr p' \<and>
           loan_state p' = Some Resolving)"
proof -
  let ?p = "example_loan \<lparr> loan_state := Some Completed \<rparr>"
  let ?v = "no_picking_vals \<lparr> pv_loan_state := Some Loan_active \<rparr>"
  let ?w = "no_picking_vals \<lparr> pv_loan_state := Some Resolving \<rparr>"
  have h: "is_loan ?p \<and> loan_state ?p = Some Completed \<and> pv_loan_state ?v = Some Loan_active \<and>
           Loan_active \<notin> set (valid_transitions Completed)"
    by (simp add: example_loan_def valid_transitions_def)
  have k: "transition_admitted example_loan Resolving \<and> pv_loan_state ?w = Some Resolving"
    by (simp add: transition_admitted_def example_loan_def valid_transitions_def)
  from loan_state_transitions_checked [of ?p Completed ?v Loan_active False example_clock] h
  have 1: "write_picking False example_clock ?v ?p =
             Inl (ValidationError (transition_message Completed Loan_active))"
    by blast
  from loan_state_transitions_checked [of example_loan Loan_active ?w Resolving False
      example_clock] k
  have 2: "\<exists>p'. write_picking False example_clock ?w example_loan = Inr p' \<and>
             loan_state p' = Some Resolving"
    by blast
  from 1 2 show ?thesis by (simp add: transition_message_def loan_state_key_def)
qed

text \<open>
  The counterexample to claim C2 as stated ("on any transfer"): the example return
  transfer is not a loan; in state \<open>completed\<close>, the write of \<open>active\<close> succeeds on it.
\<close>

theorem transition_unchecked_counterexample:
  "write_picking False example_clock (no_picking_vals \<lparr> pv_loan_state := Some Loan_active \<rparr>)
     ((example_return 1) \<lparr> loan_state := Some Completed \<rparr>) =
   Inr (example_return 1)"
  by (simp add: picking_defs example_defs or_else_def)

subsection \<open>Return reconciliation\<close>

lemma consume_rows_exhausted: "q \<le> 0 \<Longrightarrow> consume_rows d clk rp rs q = Inr d"
  by (cases rs) simp_all

lemma mark_returned_good_active:
  "status r = Active \<Longrightarrow>
   action_mark_as_returned prods clk r (Some rp) ''good'' (Some remark) =
     Inr (r \<lparr> status := Returned_good, return_picking_id := Some rp,
              resolution_date := Some (now clk), return_condition_notes := remark,
              days_in_loan := (now clk - loan_date r) div 86400, is_overdue := False \<rparr>)"
  by (simp add: detail_defs)

text \<open>
  The loop is greedy, as the specification says. An active row whose quantity is at most
  the remainder is marked as returned in good condition, and the loop goes on with the
  float difference of the remainder and the quantity.
\<close>

lemma consume_rows_full:
  assumes "status r = Active" "0 < q" "quantity r \<le> q"
  shows "consume_rows d clk rp (r # rs) q =
     consume_rows
       (store_detail d
          (r \<lparr> status := Returned_good, return_picking_id := Some rp,
               resolution_date := Some (now clk), return_condition_notes := auto_return_note clk,
               days_in_loan := (now clk - loan_date r) div 86400, is_overdue := False \<rparr>))
       clk rp rs (round_float (q - quantity r))"
  using assms by (simp add: mark_returned_good_active)

lemma copy_detail_partial:
  assumes "tracking (products d (product_id r)) \<noteq> Serial"
    and "check_tracking_consistency (products d) r = Inr ()"
  shows "copy_detail d clk r
           (no_vals \<lparr> v_quantity := Some q, v_status := Some Returned_good,
                      v_return_picking_id := Some (Some rp),
                      v_resolution_date := Some (Some (now clk)),
                      v_return_condition_notes := Some remark \<rparr>) =
         Inr (d \<lparr> details := details d @
                    [r \<lparr> detail_id := next_id d, quantity := q, status := Returned_good,
                         return_picking_id := Some rp, resolution_date := Some (now clk),
                         return_condition_notes := remark,
                         days_in_loan := (now clk - loan_date r) div 86400,
                         is_overdue := False \<rparr>],
                  next_id := Suc (next_id d) \<rparr>)"
  using assms
  by (auto simp: copy_detail_def detail_defs split: if_splits)

lemma shrink_detail:
  assumes "tracking (prods (product_id r)) \<noteq> Serial"
    and "check_tracking_consistency prods r = Inr ()"
  shows "write_detail prods clk (no_vals \<lparr> v_quantity := Some q \<rparr>) r = Inr (r \<lparr> quantity := q \<rparr>)"
  using assms by (auto simp: detail_defs split: if_splits)

text \<open>
  A row whose quantity exceeds the remainder is split: a new returned row is created for
  the remainder, the row keeps the float difference, and the loop ends.
\<close>

lemma consume_rows_split:
  assumes "0 < q" "q < quantity r"
    and "tracking (products d (product_id r)) \<noteq> Serial"
    and "check_tracking_consistency (products d) r = Inr ()"
  shows "consume_rows d clk rp (r # rs) q =
     Inr (store_detail
            (d \<lparr> details := details d @
                    [r \<lparr> detail_id := next_id d, quantity := q, status := Returned_good,
                         return_picking_id := Some rp, resolution_date := Some (now clk),
                         return_condition_notes := partial_return_note clk,
                         days_in_loan := (now clk - loan_date r) div 86400,
                         is_overdue := False \<rparr>],
                  next_id := Suc (next_id d) \<rparr>)
            (r \<lparr> quantity := round_float (quantity r - q) \<rparr>))"
  using assms
  by (simp add: copy_detail_partial shrink_detail consume_rows_exhausted)

lemma return_moves_untracked:
  assumes "tracking (products d (move_product_id m)) \<noteq> Serial"
    and "0 < float_sum (map qty_done (move_line_ids m))"
  shows "return_moves d clk rp original (m # ms) =
     (case consume_rows d clk rp
             (search_details d (\<lambda>r. picking_id r = original \<and>
                 product_id r = move_product_id m \<and> status r = Active))
             (float_sum (map qty_done (move_line_ids m))) of
        Inl e \<Rightarrow> Inl e
      | Inr d' \<Rightarrow> return_moves d' clk rp original ms)"
  using assms by (simp add: Let_def)

lemma search_details_listing:
  "sorted (map (\<lambda>r. (- loan_date r, - int (detail_id r))) (search_details d P)) \<and>
   set (search_details d P) = {r \<in> set (details d). P r}"
  by (auto simp: search_details_def)

text \<open>
  The rounding matters. Two active rows hold the floats nearest to 0.2 (id 1) and 0.1
  (id 2), and the float nearest to 0.3 comes back. The row 2 is listed first and is
  returned whole; the float difference \<open>0.3 - 0.1\<close> is just below 0.2, so the row 1 is
  split and keeps a remainder of \<open>2^-55\<close>.
\<close>

lemma consume_rows_rounds:
  "map_sum id (\<lambda>d. map (\<lambda>r. (detail_id r, status r, quantity r)) (details d))
     (consume_rows
        ((example_db example_loan)
           \<lparr> details := [example_detail \<lparr> quantity := 3602879701896397 / 2 ^ 54 \<rparr>,
                         example_detail \<lparr> detail_id := 2,
                                          quantity := 3602879701896397 / 2 ^ 55 \<rparr>] \<rparr>)
        example_clock 20
        (search_details
           ((example_db example_loan)
              \<lparr> details := [example_detail \<lparr> quantity := 3602879701896397 / 2 ^ 54 \<rparr>,
                            example_detail \<lparr> detail_id := 2,
                                             quantity := 3602879701896397 / 2 ^ 55 \<rparr>] \<rparr>)
           (\<lambda>r. picking_id r = 10 \<and> product_id r = 3 \<and> status r = Active))
        (5404319552844595 / 2 ^ 54)) =
   Inr [(1, Active, 1 / 2 ^ 55), (2, Returned_good, 3602879701896397 / 2 ^ 55),
        (100, Returned_good, 7205759403792793 / 2 ^ 55)]"
  by (simp add: example_defs detail_defs db_defs rounding_defs)

subsubsection \<open>The state of the original loan\<close>

lemma find_store_picking:
  "find (\<lambda>x. pk_id x = i) xs = Some p \<Longrightarrow> pk_id p' = i \<Longrightarrow>
     find (\<lambda>x. pk_id x = i) (map (\<lambda>x. if pk_id x = pk_id p' then p' else x) xs) = Some p'"
  by (induction xs) (auto split: if_splits)

lemma find_picking_id: "find_picking d i = Some p \<Longrightarrow> pk_id p = i"
  by (auto simp: find_picking_def find_Some_iff)

lemma assign_loan_state_admitted:
  assumes "find_picking d i = Some p" "transition_admitted p t"
  shows "\<exists>d'. assign_loan_state d clk p t = Inr d' \<and> details d' = details d \<and>
           map_option loan_state (find_picking d' i) = Some (Some t)"
proof -
  let ?v = "no_picking_vals \<lparr> pv_loan_state := Some t \<rparr>"
  let ?p' = "store_picking_vals clk ?v p"
  have w: "write_picking False clk ?v p = Inr ?p'"
    using assms(2)
    by (auto simp: transition_admitted_def write_picking_def validate_state_transition_def
        no_picking_vals_def split: option.splits if_splits)
  have id: "pk_id ?p' = i" and st: "loan_state ?p' = Some t"
    using find_picking_id [OF assms(1)]
    by (auto simp: store_picking_vals_def no_picking_vals_def compute_overdue_days_def Let_def
        or_else_def split: option.splits)
  have "find_picking (store_picking d ?p') i = Some ?p'"
    using find_store_picking [of i "pickings d" p ?p'] assms(1) id
    by (simp add: find_picking_def store_picking_def)
  then show ?thesis
    using w st by (simp add: assign_loan_state_def store_picking_def)
qed

lemma assign_loan_state_rejected:
  assumes "is_loan p" "loan_state p = Some s" "t \<notin> set (valid_transitions s)"
  shows "assign_loan_state d clk p t = Inl (ValidationError (transition_message s t))"
  using assms
  by (simp add: assign_loan_state_def write_picking_def validate_state_transition_def
      no_picking_vals_def)

text \<open>
  \<open>_update_original_loan_state\<close> asks for \<open>completed\<close> when no row of the loan is active,
  for \<open>partially_resolved\<close> when some but not all are, and for nothing otherwise, as the
  specification says; but it asks through the assignment, and so through the check of
  \<open>write\<close>. On a loan transfer in state \<open>active\<close>, the state every loan starts in, the
  table lists neither of the two states, and the request is a validation error.
\<close>

lemma update_state_completed:
  assumes "find_picking d original = Some p"
    and "filter (\<lambda>r. picking_id r = original \<and> status r = Active) (details d) = []"
  shows "update_original_loan_state d clk original = assign_loan_state d clk p Completed"
  using assms by (simp add: update_original_loan_state_def search_details_empty)

lemma update_state_partial:
  assumes "find_picking d original = Some p"
    and "filter (\<lambda>r. picking_id r = original \<and> status r = Active) (details d) \<noteq> []"
    and "length (filter (\<lambda>r. picking_id r = original \<and> status r = Active) (details d)) <
         length (filter (\<lambda>r. picking_id r = original) (details d))"
  shows "update_original_loan_state d clk original =
           assign_loan_state d clk p Partially_resolved"
  using assms
  by (simp add: update_original_loan_state_def search_details_empty search_details_length Let_def)

lemma update_state_unchanged:
  assumes "find_picking d original = Some p"
    and "filter (\<lambda>r. picking_id r = original \<and> status r = Active) (details d) \<noteq> []"
    and "\<not> length (filter (\<lambda>r. picking_id r = original \<and> status r = Active) (details d)) <
           length (filter (\<lambda>r. picking_id r = original) (details d))"
  shows "update_original_loan_state d clk original = Inr d"
  using assms
  by (simp add: update_original_loan_state_def search_details_empty search_details_length Let_def)

lemma update_state_from_active:
  assumes "find_picking d original = Some p" "is_loan p" "loan_state p = Some Loan_active"
    and "length (filter (\<lambda>r. picking_id r = original \<and> status r = Active) (details d)) <
         length (filter (\<lambda>r. picking_id r = original) (details d))"
  shows "\<exists>t. update_original_loan_state d clk original =
               Inl (ValidationError (transition_message Loan_active t))"
proof (cases "filter (\<lambda>r. picking_id r = original \<and> status r = Active) (details d) = []")
  case True
  have "Completed \<notin> set (valid_transitions Loan_active)" by (simp add: valid_transitions_def)
  from assign_loan_state_rejected [OF assms(2,3) this]
  show ?thesis using update_state_completed [OF assms(1) True] by auto
next
  case False
  have "Partially_resolved \<notin> set (valid_transitions Loan_active)"
    by (simp add: valid_transitions_def)
  from assign_loan_state_rejected [OF assms(2,3) this]
  show ?thesis using update_state_partial [OF assms(1) False assms(4)] by auto
qed

text \<open>
  From the state \<open>resolving\<close> the reconciliation does what the specification says: one
  unit back splits the row and leaves the loan \<open>partially_resolved\<close>, all three back
  leave it \<open>completed\<close>.
\<close>

lemma reconciliation_from_resolving:
  "map_sum id
     (\<lambda>d. (map (\<lambda>r. (detail_id r, status r, quantity r)) (details d), map loan_state (pickings d)))
     (button_validate (example_db (example_loan \<lparr> loan_state := Some Resolving \<rparr>))
        example_clock (example_return 1)) =
     Inr ([(1, Active, 2), (100, Returned_good, 1)], [Some Partially_resolved])
   \<and> map_sum id
     (\<lambda>d. (map (\<lambda>r. (detail_id r, status r, quantity r)) (details d), map loan_state (pickings d)))
     (button_validate (example_db (example_loan \<lparr> loan_state := Some Resolving \<rparr>))
        example_clock (example_return 3)) =
     Inr ([(1, Returned_good, 3)], [Some Completed])"
  by (simp add: example_defs detail_defs picking_defs db_defs return_defs rounding_defs
      or_else_def)

text \<open>
  Claim C3 on the example loan, a loan transfer in the state \<open>active\<close> that every loan
  starts in, with its one active row of three units. All three units come back on a
  confirmed return transfer: the loop marks the row as returned, no active row remains,
  and the assignment of \<open>completed\<close> is rejected by the table, so the reconciliation, and
  with it the confirmation, ends in the validation error and the loan does not become
  \<open>completed\<close>. One unit back ends in the same way at \<open>partially_resolved\<close>. And on a loan
  that is \<open>partially_resolved\<close> after a first partial return, a second partial return
  asks for \<open>partially_resolved\<close> again and is rejected too.
\<close>

theorem return_reconciliation_rejected:
  "return_moves (example_db example_loan) example_clock 20 10
     (move_ids_without_package (example_return 3)) =
     Inr ((example_db example_loan)
            \<lparr> details :=
                [example_detail \<lparr> status := Returned_good, return_picking_id := Some 20,
                    resolution_date := Some 200000,
                    return_condition_notes := auto_return_note example_clock,
                    days_in_loan := 2 \<rparr>] \<rparr>)
   \<and> update_loan_tracking_on_return (example_db example_loan) example_clock (example_return 3) =
       Inl (ValidationError (transition_message Loan_active Completed))
   \<and> button_validate (example_db example_loan) example_clock (example_return 3) =
       Inl (ValidationError (transition_message Loan_active Completed))
   \<and> button_validate (example_db example_loan) example_clock (example_return 1) =
       Inl (ValidationError (transition_message Loan_active Partially_resolved))
   \<and> button_validate
       ((example_db (example_loan \<lparr> loan_state := Some Partially_resolved \<rparr>))
          \<lparr> details :=
              [example_detail \<lparr> quantity := 2 \<rparr>,
               example_detail \<lparr> detail_id := 100, quantity := 1, status := Returned_good,
                  return_picking_id := Some 19, resolution_date := Some 100000 \<rparr>],
            next_id := 101 \<rparr>)
       example_clock (example_return 1) =
       Inl (ValidationError (transition_message Partially_resolved Partially_resolved))"
  by (simp add: example_defs detail_defs picking_defs db_defs return_defs rounding_defs
      or_else_def)

subsection \<open>The round trip through the resolution workflow\<close>

lemmas wizard_defs = action_process_resolution_def validate_resolution_def lines_of_type_def
  has_sales_def has_returns_def has_continued_loans_def resolution_steps_def process_sales_def
  process_returns_def process_continued_loans_def wizard_update_original_loan_state_def
  create_sale_order_def create_return_picking_def new_return_picking_def group_lines_def
  line_key_def make_order_lines_def order_line_name_def matching_order_line_def error_text_def

text \<open>
  Claim C1 at its own scenario: the example loan (confirmed, active, operation type of a
  loans warehouse) holds one active row of three units, and the workflow is submitted
  with one unit to buy, one to return and one to keep. The submission ends in a usage
  error: creating the return transfer fails. With an operation type outside a loans
  warehouse the return transfer is created, and the last step fails instead: the write
  of \<open>partially_resolved\<close> on the active loan is rejected. With the loan moreover in state
  \<open>resolving\<close> the submission goes through, and the ledger then holds the one row, whole,
  in status \<open>pending_resolution\<close>, and no sold and no active row.
\<close>

theorem resolution_round_trip:
  "action_process_resolution (example_db example_loan) example_clock example_wizard =
     Inl (UserError
       [Txt (''Error al procesar la resoluci'' @ o_acute @ ''n del pr'' @ e_acute @ ''stamo: ''),
        Txt (''Los pr'' @ e_acute @ ''stamos deben tener un cliente destino asignado.'')])
   \<and> action_process_resolution
       (example_db (example_loan \<lparr> type_warehouse_is_loans := False \<rparr>))
       example_clock example_wizard =
     Inl (UserError
       (Txt (''Error al procesar la resoluci'' @ o_acute @ ''n del pr'' @ e_acute @ ''stamo: '')
        # transition_message Loan_active Partially_resolved))
   \<and> map_sum id (\<lambda>d. map (\<lambda>r. (detail_id r, status r, quantity r)) (details d))
       (action_process_resolution
          (example_db (example_loan \<lparr> type_warehouse_is_loans := False,
                                       loan_state := Some Resolving \<rparr>))
          example_clock example_wizard) =
     Inr [(1, Pending_resolution, 3)]"
  by (simp add: example_defs wizard_defs detail_defs picking_defs db_defs)

subsection \<open>The workflow never adds a row to the ledger\<close>

lemma store_detail_length: "length (details (store_detail d r)) = length (details d)"
  by (simp add: store_detail_def)

lemma mark_sold_lines_length:
  "mark_sold_lines d clk order_line ls = Inr d' \<Longrightarrow> length (details d') = length (details d)"
proof (induction ls arbitrary: d)
  case Nil
  then show ?case by simp
next
  case (Cons l ls)
  then show ?case
    by (auto simp: store_detail_length split: option.splits sum.splits)
qed

lemma mark_pending_lines_length:
  "mark_pending_lines d clk ls = Inr d' \<Longrightarrow> length (details d') = length (details d)"
proof (induction ls arbitrary: d)
  case Nil
  then show ?case by simp
next
  case (Cons l ls)
  then show ?case
    by (auto simp: store_detail_length split: option.splits sum.splits)
qed

lemma extend_lines_length:
  "extend_lines d clk ls = Inr d' \<Longrightarrow> length (details d') = length (details d)"
proof (induction ls arbitrary: d)
  case Nil
  then show ?case by simp
next
  case (Cons l ls)
  then show ?case
    by (auto simp: store_detail_length split: option.splits sum.splits)
qed

lemma process_sales_length:
  "process_sales d clk loan w = Inr d' \<Longrightarrow> length (details d') = length (details d)"
  by (auto simp: process_sales_def create_sale_order_def store_picking_def Let_def
      dest!: mark_sold_lines_length split: if_splits sum.splits prod.splits)

lemma process_returns_length:
  "process_returns d clk loan w = Inr d' \<Longrightarrow> length (details d') = length (details d)"
  by (auto simp: process_returns_def create_return_picking_def Let_def
      dest!: mark_pending_lines_length split: if_splits sum.splits option.splits)

lemma wizard_update_length:
  "wizard_update_original_loan_state d clk w = Inr d' \<Longrightarrow>
     length (details d') = length (details d)"
  by (auto simp: wizard_update_original_loan_state_def store_picking_def Let_def
      split: option.splits sum.splits)

lemma resolution_steps_length:
  assumes "resolution_steps d clk loan w = Inr d'"
  shows "length (details d') = length (details d)"
proof -
  obtain d1 d2 d3 where
    s1: "(if has_sales w then process_sales d clk loan w else Inr d) = Inr d1" and
    s2: "(if has_returns w then process_returns d1 clk loan w else Inr d1) = Inr d2" and
    s3: "(if has_continued_loans w then process_continued_loans d2 clk w else Inr d2) = Inr d3"
    and s4: "wizard_update_original_loan_state d3 clk w = Inr d'"
    using assms by (auto simp: resolution_steps_def split: sum.splits)
  have "length (details d1) = length (details d)"
    using s1 process_sales_length by (auto split: if_splits)
  moreover have "length (details d2) = length (details d1)"
    using s2 process_returns_length by (auto split: if_splits)
  moreover have "length (details d3) = length (details d2)"
    using s3 extend_lines_length by (auto simp: process_continued_loans_def split: if_splits)
  moreover have "length (details d') = length (details d3)"
    using s4 by (rule wizard_update_length)
  ultimately show ?thesis by simp
qed

text \<open>
  Whatever the lines of the submission are, a submission that goes through leaves as many
  rows in the ledger as it found: from one row it cannot produce three.
\<close>

lemma resolution_keeps_ledger_size:
  "action_process_resolution d clk w = Inr d' \<Longrightarrow> length (details d') = length (details d)"
  by (auto simp: action_process_resolution_def dest: resolution_steps_length
      split: sum.splits option.splits)

subsection \<open>The overdue sweep\<close>

lemmas mail_defs = cron_check_overdue_loans_def create_overdue_activity_def
  is_overdue_reminder_def ilike_def overdue_pattern_def lower_ascii_def upper_latin_def
  example_mail_def e_acute_def

text \<open>
  Claim C5 on the installed activity types: the example loan is overdue and active, and
  there is no activity yet. The first sweep creates a reminder of the to-do type; the
  second sweep looks for an activity whose type name contains the pattern, finds none
  (the type is named \<open>To-Do\<close>), and creates a second reminder for the same transfer.
\<close>

theorem overdue_sweep_twice:
  "activities (cron_check_overdue_loans [example_loan] example_clock
                 (cron_check_overdue_loans [example_loan] example_clock example_mail)) =
     [\<lparr> act_res_model = ''stock.picking'', act_res_id = 10, activity_type_id = Some 4,
        summary = [Txt (''Pr'' @ e_acute @ ''stamo Vencido - ''), Txt ''LOAN/0001''],
        date_deadline = 2, act_user_id = 2 \<rparr>,
      \<lparr> act_res_model = ''stock.picking'', act_res_id = 10, activity_type_id = Some 4,
        summary = [Txt (''Pr'' @ e_acute @ ''stamo Vencido - ''), Txt ''LOAN/0001''],
        date_deadline = 2, act_user_id = 2 \<rparr>]"
  by (simp add: mail_defs example_defs active_family_def or_else_def)

text \<open>
  The check does skip a transfer whose reminder it can recognise: with a to-do type
  named after the pattern, the second sweep adds nothing.
\<close>

lemma overdue_sweep_skips_recognised:
  "length (activities
     (cron_check_overdue_loans [example_loan] example_clock
        (cron_check_overdue_loans [example_loan] example_clock
           (example_mail \<lparr> activity_types := [(4, ''pr'' @ e_acute @ ''stamo vencido'')] \<rparr>)))) = 1"
  by (simp add: mail_defs example_defs active_family_def or_else_def)

subsection \<open>The valuation tracker\<close>

lemmas valuation_defs = create_for_loan_def rows_for_move_def create_tracker_def
  compute_current_cost_def compute_valuation_difference_def write_standard_price_def
  recompute_tracker_def current_cost_depends_def valuation_difference_depends_def
  read_current_cost_def read_valuation_difference_def example_valuation_def

text \<open>
  Claim C6 on the example loan: its valuation row is created while product 3 costs 10;
  the standard price of the product is then written as 150. The row still reads the
  current cost 10 and the difference 0, while the live cost is 150.
\<close>

theorem stale_current_cost:
  "map (\<lambda>r. (read_current_cost r, read_valuation_difference r, vt_original_cost r))
     (trackers (write_standard_price
                  (create_for_loan example_valuation example_clock example_loan) 3 150)) =
     [(10, 0, 10)]
   \<and> standard_price
       (vd_products (write_standard_price
                       (create_for_loan example_valuation example_clock example_loan) 3 150) 3)
     = 150"
  by (simp add: valuation_defs example_defs or_else_def round_float_small Let_def)


end
